theory Spec2Isabelle
  imports Main
begin

section \<open>The environment of the git plugin\<close>

text \<open>
  The plugin (package \<open>git\<close>: \<open>commands.go\<close> and the file holding \<open>Repo\<close>) drives the
  external \<open>git\<close> binary, reads the clock and looks at the local directory.  All three are
  outside the program, so the model threads an explicit \<open>world\<close> through every function:
  \<^item> \<open>respond\<close> is the environment's answer to an external process: given the invocations made
    so far and the new one, how the process ends and how long it took;
  \<^item> \<open>runs\<close> is the log of every process the program has started, oldest first, each with
    the way it ended; \<open>issued\<close> is the list of the invocations alone;
  \<^item> \<open>clock\<close> is the time in nanoseconds since Go's zero \<open>time.Time\<close>; it moves forward
    by the duration of each process (Go measures elapsed time on its monotonic clock);
  \<^item> \<open>files\<close> is the directory tree as the \<open>os\<close> calls of the program see and change it;
    what an external process does on disk is its own business and is not part of it;
  \<^item> \<open>unreadable\<close> says which directories cannot be listed (permissions, input/output
    errors) although they exist;
  \<^item> \<open>creatable\<close> says whether the operating system lets a missing directory be created.
  Logging (\<open>log.Warning\<close>, \<open>log.Infof\<close>, \<open>log.Errorf\<close>) changes nothing the program reads
  and is left out.  The mutex embedded in \<open>Repo\<close> is left out as well: the model is sequential.
\<close>

record invocation =
  cmd_name :: string
  cmd_args :: "string list"
  cmd_dir :: string

datatype outcome =
  StartFailed
| Exited nat string

text \<open>\<open>Exited n out\<close>: the process ran, wrote \<open>out\<close> to its standard output and left with
  status \<open>n\<close>.  \<open>StartFailed\<close>: the binary could not be started.\<close>

record FileInfo =
  Name :: string
  IsDir :: bool

datatype fnode =
  RegularFile
| Directory "FileInfo list"

record world =
  respond :: "invocation list \<Rightarrow> invocation \<Rightarrow> outcome \<times> nat"
  runs :: "(invocation \<times> outcome) list"
  clock :: int
  files :: "string \<Rightarrow> fnode option"
  unreadable :: "string \<Rightarrow> bool"
  creatable :: "string \<Rightarrow> bool"

definition issued :: "world \<Rightarrow> invocation list" where
  "issued w = map fst (runs w)"

datatype error =
  ExecStartError
| ExecExitError nat
| CommandParseError
| PathError string
| NoTagsFound string
| CannotRetrieveRepoURL string error
| AnotherGitRepo string string
| DirectoryNotEmpty string

text \<open>
  The errors of the code: \<open>ExecStartError\<close> and \<open>ExecExitError\<close> are what \<open>os/exec\<close> returns
  from \<open>Start\<close>, \<open>Wait\<close> and \<open>Output\<close>; \<open>PathError\<close> comes from the \<open>os\<close> package;
  \<open>CommandParseError\<close> from \<open>caddy.SplitCommandAndArgs\<close>; the last four are the
  \<open>fmt.Errorf\<close> messages of \<open>checkoutLatestTag\<close> and \<open>Prepare\<close>.
  The three predicates below are the taxonomy of the specification.
\<close>

fun ExecutionError :: "error \<Rightarrow> bool" where
  "ExecutionError ExecStartError = True"
| "ExecutionError (ExecExitError n) = True"
| "ExecutionError e = False"

fun TagResolutionError :: "error \<Rightarrow> bool" where
  "TagResolutionError (NoTagsFound u) = True"
| "TagResolutionError e = False"

fun ConfigurationError :: "error \<Rightarrow> bool" where
  "ConfigurationError (CannotRetrieveRepoURL p e) = True"
| "ConfigurationError (AnotherGitRepo u p) = True"
| "ConfigurationError (DirectoryNotEmpty p) = True"
| "ConfigurationError e = False"

subsection \<open>External processes\<close>

definition exec_run :: "invocation \<Rightarrow> world \<Rightarrow> outcome \<times> world" where
  "exec_run iv w =
     (case respond w (issued w) iv of
        (oc, d) \<Rightarrow> (oc, w\<lparr>runs := runs w @ [(iv, oc)], clock := clock w + int d\<rparr>))"

text \<open>\<open>cmd.Start\<close> followed by \<open>cmd.Wait\<close>, and \<open>cmd.Output\<close>, of \<open>os/exec\<close>.\<close>

definition exec_error :: "outcome \<Rightarrow> error option" where
  "exec_error oc =
     (case oc of
        StartFailed \<Rightarrow> Some ExecStartError
      | Exited n out \<Rightarrow> (if n = 0 then None else Some (ExecExitError n)))"

definition exec_stdout :: "outcome \<Rightarrow> string" where
  "exec_stdout oc = (case oc of StartFailed \<Rightarrow> [] | Exited n out \<Rightarrow> out)"

definition Output :: "invocation \<Rightarrow> world \<Rightarrow> (string \<times> error option) \<times> world" where
  "Output iv w =
     (case exec_run iv w of (oc, w') \<Rightarrow> ((exec_stdout oc, exec_error oc), w'))"

subsection \<open>Strings and time\<close>

text \<open>
  \<open>bytes.TrimSpace\<close> removes the leading and the trailing white space of a byte string, as
  \<open>unicode.IsSpace\<close> defines it on the runes UTF-8 decodes: the six ASCII characters tab,
  line feed, vertical tab, form feed, carriage return and space, and the code points U+0085,
  U+00A0, U+1680, U+2000 to U+200A, U+2028, U+2029, U+202F, U+205F and U+3000.  A byte
  sequence that is not valid UTF-8 decodes to U+FFFD, one byte wide, which is not white
  space, so trimming stops there.  Each of these code points has one valid encoding, listed in
  \<open>white_space\<close>; none is the beginning or the end of another, so the rune at the start of
  a string is white space exactly when the string begins with one of them, and
  \<open>utf8.DecodeLastRune\<close> finds white space at the end exactly when the string ends with one.
  \<open>trim_start encs k s\<close> skips the \<open>k\<close> bytes left of the rune it is in and then every
  further rune of \<open>encs\<close>.
\<close>

definition white_space :: "string list" where
  "white_space =
     [[CHR 0x09], [CHR 0x0A], [CHR 0x0B], [CHR 0x0C], [CHR 0x0D], [CHR 0x20],
      [CHR 0xC2, CHR 0x85], [CHR 0xC2, CHR 0xA0],
      [CHR 0xE1, CHR 0x9A, CHR 0x80],
      [CHR 0xE2, CHR 0x80, CHR 0x80], [CHR 0xE2, CHR 0x80, CHR 0x81],
      [CHR 0xE2, CHR 0x80, CHR 0x82], [CHR 0xE2, CHR 0x80, CHR 0x83],
      [CHR 0xE2, CHR 0x80, CHR 0x84], [CHR 0xE2, CHR 0x80, CHR 0x85],
      [CHR 0xE2, CHR 0x80, CHR 0x86], [CHR 0xE2, CHR 0x80, CHR 0x87],
      [CHR 0xE2, CHR 0x80, CHR 0x88], [CHR 0xE2, CHR 0x80, CHR 0x89],
      [CHR 0xE2, CHR 0x80, CHR 0x8A],
      [CHR 0xE2, CHR 0x80, CHR 0xA8], [CHR 0xE2, CHR 0x80, CHR 0xA9],
      [CHR 0xE2, CHR 0x80, CHR 0xAF],
      [CHR 0xE2, CHR 0x81, CHR 0x9F],
      [CHR 0xE3, CHR 0x80, CHR 0x80]]"

definition space_width :: "string list \<Rightarrow> string \<Rightarrow> nat" where
  "space_width encs s =
     (case find (\<lambda>e. take (length e) s = e) encs of None \<Rightarrow> 0 | Some e \<Rightarrow> length e)"

fun trim_start :: "string list \<Rightarrow> nat \<Rightarrow> string \<Rightarrow> string" where
  "trim_start encs k [] = []"
| "trim_start encs (Suc k) (c # cs) = trim_start encs k cs"
| "trim_start encs 0 (c # cs) =
     (case space_width encs (c # cs) of
        0 \<Rightarrow> c # cs
      | Suc k \<Rightarrow> trim_start encs k cs)"

definition TrimSpace :: "string \<Rightarrow> string" where
  "TrimSpace s = rev (trim_start (map rev white_space) 0 (rev (trim_start white_space 0 s)))"

definition HasSuffix :: "string \<Rightarrow> string \<Rightarrow> bool" where
  "HasSuffix s suffix =
     (length suffix \<le> length s \<and> drop (length s - length suffix) s = suffix)"

definition TrimSuffix :: "string \<Rightarrow> string \<Rightarrow> string" where
  "TrimSuffix s suffix =
     (if HasSuffix s suffix then take (length s - length suffix) s else s)"

definition Second :: int where
  "Second = 1000000000"

definition maxDuration :: int where
  "maxDuration = 2 ^ 63 - 1"

definition minDuration :: int where
  "minDuration = - (2 ^ 63)"

text \<open>\<open>time.Since(t)\<close> is \<open>time.Now().Sub(t)\<close>: the difference, saturated to an int64.\<close>

definition Since :: "world \<Rightarrow> int \<Rightarrow> int" where
  "Since w t =
     (let d = clock w - t
      in if maxDuration < d then maxDuration
         else if d < minDuration then minDuration
         else d)"

subsection \<open>The file system calls\<close>

text \<open>
  \<open>ioutil.ReadDir\<close>, \<open>os.Stat\<close> and \<open>os.MkdirAll\<close>.  \<open>ReadDir\<close> fails on a path that
  is missing or is a file, and on a directory that cannot be listed.  \<open>MkdirAll\<close> succeeds
  on an existing directory, readable or not, fails on an existing file, and otherwise
  creates the directory when the system allows it; the parents it creates on the way are
  not recorded.
\<close>

definition ReadDir :: "string \<Rightarrow> world \<Rightarrow> FileInfo list \<times> error option" where
  "ReadDir path w =
     (case files w path of
        Some (Directory entries) \<Rightarrow>
          (if unreadable w path then ([], Some (PathError path)) else (entries, None))
      | Some RegularFile \<Rightarrow> ([], Some (PathError path))
      | None \<Rightarrow> ([], Some (PathError path)))"

definition Stat :: "string \<Rightarrow> world \<Rightarrow> error option" where
  "Stat path w = (case files w path of Some node \<Rightarrow> None | None \<Rightarrow> Some (PathError path))"

definition MkdirAll :: "string \<Rightarrow> world \<Rightarrow> error option \<times> world" where
  "MkdirAll path w =
     (case files w path of
        Some (Directory entries) \<Rightarrow> (None, w)
      | Some RegularFile \<Rightarrow> (Some (PathError path), w)
      | None \<Rightarrow>
          (if creatable w path
           then (None, w\<lparr>files := (files w)(path \<mapsto> Directory [])\<rparr>)
           else (Some (PathError path), w)))"

subsection \<open>Splitting a command line\<close>

text \<open>
  \<open>caddy.SplitCommandAndArgs\<close> is a library call; on Unix it splits the line into words at
  spaces, a pair of double quotes groups characters and is dropped, and a line with no word
  or with an open quote is an error.  The plugin calls it on two constant lines only.
\<close>

fun split_words :: "string \<Rightarrow> string \<Rightarrow> bool \<Rightarrow> bool \<Rightarrow> string list option" where
  "split_words [] cur in_word in_quote =
     (if in_quote then None else Some (if in_word then [rev cur] else []))"
| "split_words (c # cs) cur in_word in_quote =
     (if in_quote then
        (if c = CHR 0x22 then split_words cs cur True False
         else split_words cs (c # cur) True True)
      else if c = CHR 0x22 then split_words cs cur True True
      else if c = CHR '' '' then
        (if in_word then map_option ((#) (rev cur)) (split_words cs [] False False)
         else split_words cs [] False False)
      else split_words cs (c # cur) True False)"

definition SplitCommandAndArgs :: "string \<Rightarrow> error + (string \<times> string list)" where
  "SplitCommandAndArgs line =
     (case split_words line [] False False of
        None \<Rightarrow> Inl CommandParseError
      | Some [] \<Rightarrow> Inl CommandParseError
      | Some (c # rest) \<Rightarrow> Inr (c, rest))"

section \<open>commands.go\<close>

definition runCmd :: "string \<Rightarrow> string list \<Rightarrow> string \<Rightarrow> world \<Rightarrow> error option \<times> world" where
  "runCmd command params d w =
     (case exec_run \<lparr>cmd_name = command, cmd_args = params, cmd_dir = d\<rparr> w of
        (oc, w') \<Rightarrow> (exec_error oc, w'))"

text \<open>
  \<open>runCmdOutput\<close> declares \<open>var err error\<close> and then tests
  \<open>if output, err := cmd.Output(); err == nil\<close>: the \<open>:=\<close> declares a second \<open>err\<close> that
  lives in the \<open>if\<close> only.  The final \<open>return "", err\<close> is outside the \<open>if\<close> and returns the
  first one, which was never assigned.  \<open>err_outer\<close> and \<open>err_inner\<close> are these two variables.
\<close>

definition runCmdOutput ::
  "string \<Rightarrow> string list \<Rightarrow> string \<Rightarrow> world \<Rightarrow> (string \<times> error option) \<times> world" where
  "runCmdOutput command params d w =
     (let err_outer = None
      in case Output \<lparr>cmd_name = command, cmd_args = params, cmd_dir = d\<rparr> w of
           ((output, err_inner), w') \<Rightarrow>
             (if err_inner = None then ((TrimSpace output, None), w')
              else (([], err_outer), w')))"

section \<open>Repositories\<close>

definition numRetries :: nat where
  "numRetries = 3"

text \<open>The constant \<open>latestTag\<close> of the source; the record field has that name already.\<close>

definition latestTag_const :: string where
  "latestTag_const = ''{latest}''"

record Repo =
  URL :: string
  Path :: string
  Branch :: string
  Interval :: int
  CloneArgs :: "string list"
  PullArgs :: "string list"
  pulled :: bool
  lastPull :: int
  lastCommit :: string
  latestTag :: string

datatype panic = IndexOutOfRange

text \<open>
  \<open>Git.Repo(i)\<close>: the only test is \<open>i < len(g)\<close>; indexing a Go slice with a negative
  number panics.
\<close>

definition Git_Repo :: "Repo list \<Rightarrow> int \<Rightarrow> panic + Repo option" where
  "Git_Repo g i =
     (if i < int (length g)
      then (if 0 \<le> i then Inr (Some (g ! nat i)) else Inl IndexOutOfRange)
      else Inr None)"

definition gitCmd :: "Repo \<Rightarrow> string list \<Rightarrow> string \<Rightarrow> world \<Rightarrow> error option \<times> world" where
  "gitCmd r params d w = runCmd ''git'' params d w"

definition mostRecentCommit :: "Repo \<Rightarrow> world \<Rightarrow> (string \<times> error option) \<times> world" where
  "mostRecentCommit r w =
     (let command = ''git'' @ '' --no-pager log -n 1 --pretty=format:'' @ [CHR 0x22] @ ''%H'' @ [CHR 0x22]
      in case SplitCommandAndArgs command of
           Inl err \<Rightarrow> (([], Some err), w)
         | Inr (c, params) \<Rightarrow> runCmdOutput c params (Path r) w)"

definition fetchLatestTag :: "Repo \<Rightarrow> world \<Rightarrow> (string \<times> error option) \<times> world" where
  "fetchLatestTag r w =
     (case gitCmd r [''fetch'', ''origin'', ''--tags''] (Path r) w of
        (Some err, w1) \<Rightarrow> (([], Some err), w1)
      | (None, w1) \<Rightarrow>
          (let command = ''git'' @ '' describe origin --abbrev=0 --tags''
           in case SplitCommandAndArgs command of
                Inl err \<Rightarrow> (([], Some err), w1)
              | Inr (c, params) \<Rightarrow> runCmdOutput c params (Path r) w1))"

definition originURL :: "Repo \<Rightarrow> world \<Rightarrow> (string \<times> error option) \<times> world" where
  "originURL r w =
     (case Stat (Path r) w of
        Some err \<Rightarrow> (([], Some err), w)
      | None \<Rightarrow> runCmdOutput ''git'' [''config'', ''--get'', ''remote.origin.url''] (Path r) w)"

text \<open>
  \<open>checkoutLatestTag\<close>: after a successful checkout the error of \<open>mostRecentCommit\<close> is
  assigned to \<open>err\<close> and the function returns \<open>nil\<close> all the same.
\<close>

definition checkoutLatestTag :: "Repo \<Rightarrow> world \<Rightarrow> error option \<times> Repo \<times> world" where
  "checkoutLatestTag r w =
     (case fetchLatestTag r w of
        ((tag, Some err), w1) \<Rightarrow> (Some err, r, w1)
      | ((tag, None), w1) \<Rightarrow>
          (if tag = [] then (Some (NoTagsFound (URL r)), r, w1)
           else if tag = latestTag r then (None, r, w1)
           else
             (case gitCmd r [''checkout'', ''tags/'' @ tag] (Path r) w1 of
                (None, w2) \<Rightarrow>
                  (let r1 = r\<lparr>latestTag := tag\<rparr>
                   in case mostRecentCommit r1 w2 of
                        ((c, err), w3) \<Rightarrow> (None, r1\<lparr>lastCommit := c\<rparr>, w3))
              | (Some err, w2) \<Rightarrow> (Some err, r, w2))))"

definition checkoutCommit :: "Repo \<Rightarrow> string \<Rightarrow> world \<Rightarrow> error option \<times> Repo \<times> world" where
  "checkoutCommit r commitHash w =
     (case gitCmd r [''checkout'', commitHash] (Path r) w of (err, w1) \<Rightarrow> (err, r, w1))"

text \<open>
  \<open>clone\<close>: in tag mode the result of \<open>checkoutLatestTag\<close> is bound by
  \<open>if err := r.checkoutLatestTag(); err != nil\<close> to a new \<open>err\<close> that is only logged; the
  \<open>return err\<close> after that \<open>if\<close> returns the \<open>err\<close> assigned from \<open>mostRecentCommit\<close>.
\<close>

definition clone :: "Repo \<Rightarrow> world \<Rightarrow> error option \<times> Repo \<times> world" where
  "clone r w =
     (let tagMode = (Branch r = latestTag_const);
          params = (if tagMode then ''clone'' # (CloneArgs r @ [URL r, Path r])
                    else [''clone'', ''-b'', Branch r] @ (CloneArgs r @ [URL r, Path r]))
      in case gitCmd r params [] w of
           (None, w1) \<Rightarrow>
             (let r1 = r\<lparr>pulled := True, lastPull := clock w1\<rparr>
              in case mostRecentCommit r1 w1 of
                   ((c, err), w2) \<Rightarrow>
                     (let r2 = r1\<lparr>lastCommit := c\<rparr>
                      in if tagMode
                         then (case checkoutLatestTag r2 w2 of
                                 (err_inner, r3, w3) \<Rightarrow> (err, r3, w3))
                         else (err, r2, w2)))
         | (Some err, w1) \<Rightarrow> (Some err, r, w1))"

definition pull :: "Repo \<Rightarrow> world \<Rightarrow> error option \<times> Repo \<times> world" where
  "pull r w =
     (if \<not> pulled r then clone r w
      else if Branch r = latestTag_const then
        (case checkoutLatestTag r w of
           (Some err, r1, w1) \<Rightarrow> (Some err, r1, w1)
         | (None, r1, w1) \<Rightarrow> (None, r1, w1))
      else
        (let params = ''pull'' # (PullArgs r @ [''origin'', Branch r])
         in case gitCmd r params (Path r) w of
              (None, w1) \<Rightarrow>
                (let r1 = r\<lparr>pulled := True, lastPull := clock w1\<rparr>
                 in case mostRecentCommit r1 w1 of
                      ((c, err), w2) \<Rightarrow> (err, r1\<lparr>lastCommit := c\<rparr>, w2))
            | (Some err, w1) \<Rightarrow> (Some err, r, w1)))"

text \<open>
  The retry loop of \<open>Pull\<close>: \<open>n\<close> iterations are left, \<open>err\<close> is the error of the last
  attempt (\<open>nil\<close> before the first).
\<close>

fun Pull_loop :: "nat \<Rightarrow> error option \<Rightarrow> Repo \<Rightarrow> world \<Rightarrow> error option \<times> Repo \<times> world" where
  "Pull_loop 0 err r w = (err, r, w)"
| "Pull_loop (Suc n) err r w =
     (case pull r w of
        (None, r1, w1) \<Rightarrow> (None, r1, w1)
      | (Some e, r1, w1) \<Rightarrow> Pull_loop n (Some e) r1 w1)"

definition Pull :: "Repo \<Rightarrow> world \<Rightarrow> error option \<times> Repo \<times> world" where
  "Pull r w =
     (if Since w (lastPull r) < 5 * Second then (None, r, w)
      else
        (let lastCommit0 = lastCommit r
         in case Pull_loop numRetries None r w of
              (Some err, r1, w1) \<Rightarrow> (Some err, r1, w1)
            | (None, r1, w1) \<Rightarrow> (None, r1, w1)))"

text \<open>The loop of \<open>Prepare\<close> that looks for a directory called \<open>.git\<close>.\<close>

fun isGit_loop :: "FileInfo list \<Rightarrow> bool" where
  "isGit_loop [] = False"
| "isGit_loop (f # fs) = (if IsDir f \<and> Name f = ''.git'' then True else isGit_loop fs)"

definition Prepare :: "Repo \<Rightarrow> world \<Rightarrow> error option \<times> Repo \<times> world" where
  "Prepare r w =
     (case ReadDir (Path r) w of
        (fs, err) \<Rightarrow>
          (if err \<noteq> None \<or> length fs = 0 then
             (case MkdirAll (Path r) w of (e, w1) \<Rightarrow> (e, r, w1))
           else if isGit_loop fs then
             (case originURL r w of
                ((repoURL, None), w1) \<Rightarrow>
                  (if TrimSuffix repoURL ''.git'' = TrimSuffix (URL r) ''.git''
                   then (None, r\<lparr>pulled := True\<rparr>, w1)
                   else (Some (AnotherGitRepo repoURL (Path r)), r, w1))
              | ((repoURL, Some e), w1) \<Rightarrow>
                  (Some (CannotRetrieveRepoURL (Path r) e), r, w1))
           else (Some (DirectoryNotEmpty (Path r)), r, w)))"

section \<open>Observing a run\<close>

text \<open>
  The world once the process \<open>iv\<close> has run, the invocations a call added to the log, and
  the two kinds of invocation the properties below count.
\<close>

definition after :: "world \<Rightarrow> invocation \<Rightarrow> world" where
  "after w iv = snd (exec_run iv w)"

definition new_issued :: "world \<Rightarrow> world \<Rightarrow> invocation list" where
  "new_issued w w' = drop (length (issued w)) (issued w')"

definition is_clone :: "invocation \<Rightarrow> bool" where
  "is_clone iv = (take 1 (cmd_args iv) = [''clone''])"

definition is_checkout :: "invocation \<Rightarrow> bool" where
  "is_checkout iv = (take 1 (cmd_args iv) = [''checkout''])"

definition checkouts :: "world \<Rightarrow> world \<Rightarrow> nat" where
  "checkouts w w' = length (filter is_checkout (new_issued w w'))"

definition git_invocation :: "string list \<Rightarrow> string \<Rightarrow> invocation" where
  "git_invocation params d = \<lparr>cmd_name = ''git'', cmd_args = params, cmd_dir = d\<rparr>"

text \<open>The commands \<open>fetchLatestTag\<close> and \<open>originURL\<close> send, and the one \<open>pull\<close> sends in
  branch mode.\<close>

definition fetch_invocation :: "Repo \<Rightarrow> invocation" where
  "fetch_invocation r = git_invocation [''fetch'', ''origin'', ''--tags''] (Path r)"

definition describe_invocation :: "Repo \<Rightarrow> invocation" where
  "describe_invocation r =
     git_invocation [''describe'', ''origin'', ''--abbrev=0'', ''--tags''] (Path r)"

definition origin_invocation :: "Repo \<Rightarrow> invocation" where
  "origin_invocation r = git_invocation [''config'', ''--get'', ''remote.origin.url''] (Path r)"

definition pull_invocation :: "Repo \<Rightarrow> invocation" where
  "pull_invocation r = git_invocation (''pull'' # (PullArgs r @ [''origin'', Branch r])) (Path r)"

text \<open>The first command of a synchronization of an initialized repository.\<close>

definition sync_invocation :: "Repo \<Rightarrow> invocation" where
  "sync_invocation r =
     (if Branch r = latestTag_const then fetch_invocation r else pull_invocation r)"

text \<open>
  The processes a call ran, each with its outcome, and three properties of such a run: every
  process exited with status 0; every \<open>git checkout\<close> did; every \<open>git describe\<close> that
  exited with status 0 printed the tag \<open>T\<close>, white space aside (the latest tag of the remote
  is \<open>T\<close> throughout).
\<close>

definition new_runs :: "world \<Rightarrow> world \<Rightarrow> (invocation \<times> outcome) list" where
  "new_runs w w' = drop (length (runs w)) (runs w')"

definition is_describe :: "invocation \<Rightarrow> bool" where
  "is_describe iv = (take 1 (cmd_args iv) = [''describe''])"

definition all_succeed :: "world \<Rightarrow> world \<Rightarrow> bool" where
  "all_succeed w w' = list_all (\<lambda>(iv, oc). exec_error oc = None) (new_runs w w')"

definition checkouts_succeed :: "world \<Rightarrow> world \<Rightarrow> bool" where
  "checkouts_succeed w w' =
     list_all (\<lambda>(iv, oc). is_checkout iv \<longrightarrow> exec_error oc = None) (new_runs w w')"

definition describe_prints :: "string \<Rightarrow> world \<Rightarrow> world \<Rightarrow> bool" where
  "describe_prints T w w' =
     list_all (\<lambda>(iv, oc). is_describe iv \<and> exec_error oc = None \<longrightarrow> TrimSpace (exec_stdout oc) = T)
       (new_runs w w')"

text \<open>
  What the working copy at \<open>Path r\<close> records as its origin: the trimmed output of
  \<open>git config --get remote.origin.url\<close> when that command exits with status 0.
\<close>

definition recorded_origin :: "Repo \<Rightarrow> world \<Rightarrow> string option" where
  "recorded_origin r w =
     (case fst (respond w (issued w) (origin_invocation r)) of
        StartFailed \<Rightarrow> None
      | Exited n out \<Rightarrow> (if n = 0 then Some (TrimSpace out) else None))"

text \<open>
  The operations on a repository: the three exported methods, the helpers \<open>Pull\<close> is made
  of, and time passing between two calls.  \<open>run_ops\<close> runs a sequence of them and keeps,
  for each, its result and the last-pull timestamp before and after.
\<close>

datatype operation =
  Op_Prepare
| Op_Pull
| Op_pull
| Op_clone
| Op_checkoutLatestTag
| Op_checkoutCommit string
| Op_wait nat

fun run_op :: "operation \<Rightarrow> Repo \<Rightarrow> world \<Rightarrow> error option \<times> Repo \<times> world" where
  "run_op Op_Prepare r w = Prepare r w"
| "run_op Op_Pull r w = Pull r w"
| "run_op Op_pull r w = pull r w"
| "run_op Op_clone r w = clone r w"
| "run_op Op_checkoutLatestTag r w = checkoutLatestTag r w"
| "run_op (Op_checkoutCommit h) r w = checkoutCommit r h w"
| "run_op (Op_wait n) r w = (None, r, w\<lparr>clock := clock w + int n\<rparr>)"

fun run_ops ::
  "operation list \<Rightarrow> Repo \<Rightarrow> world \<Rightarrow> (operation \<times> error option \<times> int \<times> int) list" where
  "run_ops [] r w = []"
| "run_ops (op # ops) r w =
     (case run_op op r w of
        (res, r1, w1) \<Rightarrow> (op, res, lastPull r, lastPull r1) # run_ops ops r1 w1)"

fun is_sync :: "operation \<Rightarrow> bool" where
  "is_sync Op_Pull = True"
| "is_sync Op_pull = True"
| "is_sync Op_clone = True"
| "is_sync op = False"

section \<open>Example repositories and environments\<close>

definition repo_zones :: Repo where
  "repo_zones =
     \<lparr>URL = ''host/org/zones'', Path = ''/zones'', Branch = ''main'', Interval = 60 * Second,
      CloneArgs = [], PullArgs = [], pulled = False, lastPull = 0, lastCommit = [],
      latestTag = []\<rparr>"

definition repo_tags :: Repo where
  "repo_tags = repo_zones\<lparr>Branch := latestTag_const\<rparr>"

text \<open>No \<open>git\<close> binary; a remote without tags (\<open>git describe\<close> exits with 128); a remote
  whose latest tag is \<open>v1.0\<close>.\<close>

definition git_missing :: "invocation list \<Rightarrow> invocation \<Rightarrow> outcome \<times> nat" where
  "git_missing h iv = (StartFailed, 0)"

definition git_no_tags :: "invocation list \<Rightarrow> invocation \<Rightarrow> outcome \<times> nat" where
  "git_no_tags h iv =
     (if take 1 (cmd_args iv) = [''describe''] then (Exited 128 [], 1000)
      else if take 1 (cmd_args iv) = [''--no-pager''] then (Exited 0 (''4f2a'' @ [CHR 0x0A]), 1000)
      else (Exited 0 [], 1000))"

definition git_ok :: "invocation list \<Rightarrow> invocation \<Rightarrow> outcome \<times> nat" where
  "git_ok h iv =
     (if take 1 (cmd_args iv) = [''describe''] then (Exited 0 (''v1.0'' @ [CHR 0x0A]), 1000)
      else if take 1 (cmd_args iv) = [''--no-pager''] then (Exited 0 (''4f2a'' @ [CHR 0x0A]), 1000)
      else if take 1 (cmd_args iv) = [''config''] then (Exited 0 (''host/org/zones.git'' @ [CHR 0x0A]), 1000)
      else (Exited 0 [], 1000))"

definition git_other_origin :: "invocation list \<Rightarrow> invocation \<Rightarrow> outcome \<times> nat" where
  "git_other_origin h iv = (Exited 0 (''host/org/other.git'' @ [CHR 0x0A]), 1000)"

text \<open>A remote like \<open>git_ok\<close> where the first \<open>git checkout\<close> of the process exits with
  status 1, and one where the first \<open>git fetch\<close> does.\<close>

definition git_checkout_fails_once :: "invocation list \<Rightarrow> invocation \<Rightarrow> outcome \<times> nat" where
  "git_checkout_fails_once h iv =
     (if is_checkout iv \<and> \<not> list_ex is_checkout h then (Exited 1 [], 1000) else git_ok h iv)"

definition git_fetch_fails_once :: "invocation list \<Rightarrow> invocation \<Rightarrow> outcome \<times> nat" where
  "git_fetch_fails_once h iv =
     (if take 1 (cmd_args iv) = [''fetch''] \<and> \<not> list_ex (\<lambda>i. take 1 (cmd_args i) = [''fetch'']) h
      then (Exited 1 [], 1000) else git_ok h iv)"

definition no_files :: "string \<Rightarrow> fnode option" where
  "no_files p = None"

definition working_copy :: "string \<Rightarrow> fnode option" where
  "working_copy p =
     (if p = ''/zones''
      then Some (Directory [\<lparr>Name = ''.git'', IsDir = True\<rparr>, \<lparr>Name = ''db.example.org'', IsDir = False\<rparr>])
      else None)"

text \<open>A working copy whose \<open>.git\<close> is a file, as a linked worktree or a submodule has.\<close>

definition gitfile_working_copy :: "string \<Rightarrow> fnode option" where
  "gitfile_working_copy p =
     (if p = ''/zones''
      then Some (Directory [\<lparr>Name = ''.git'', IsDir = False\<rparr>, \<lparr>Name = ''db.example.org'', IsDir = False\<rparr>])
      else None)"

definition plain_directory :: "string \<Rightarrow> fnode option" where
  "plain_directory p =
     (if p = ''/zones'' then Some (Directory [\<lparr>Name = ''notes.txt'', IsDir = False\<rparr>]) else None)"

definition world_at ::
  "(invocation list \<Rightarrow> invocation \<Rightarrow> outcome \<times> nat) \<Rightarrow> (string \<Rightarrow> fnode option) \<Rightarrow> world" where
  "world_at f t =
     \<lparr>respond = f, runs = [], clock = 63900000000 * Second, files = t,
      unreadable = (\<lambda>p. False), creatable = (\<lambda>p. True)\<rparr>"

section \<open>Basic facts\<close>

lemma runCmdOutput_no_error: "snd (fst (runCmdOutput command params d w)) = None"
  by (simp add: runCmdOutput_def split: prod.splits)

lemma split_log:
  "SplitCommandAndArgs
     (''git'' @ '' --no-pager log -n 1 --pretty=format:'' @ [CHR 0x22] @ ''%H'' @ [CHR 0x22])
   = Inr (''git'', [''--no-pager'', ''log'', ''-n'', ''1'', ''--pretty=format:%H''])"
  by (simp add: SplitCommandAndArgs_def)

lemma split_describe:
  "SplitCommandAndArgs (''git'' @ '' describe origin --abbrev=0 --tags'')
   = Inr (''git'', [''describe'', ''origin'', ''--abbrev=0'', ''--tags''])"
  by (simp add: SplitCommandAndArgs_def)

lemma exec_run_after: "exec_run iv w = (fst (respond w (issued w) iv), after w iv)"
  by (simp add: after_def exec_run_def split: prod.splits)

lemma after_simps [simp]:
  "respond (after w iv) = respond w"
  "runs (after w iv) = runs w @ [(iv, fst (respond w (issued w) iv))]"
  "issued (after w iv) = issued w @ [iv]"
  "clock (after w iv) = clock w + int (snd (respond w (issued w) iv))"
  "files (after w iv) = files w"
  "unreadable (after w iv) = unreadable w"
  "creatable (after w iv) = creatable w"
  by (simp_all add: after_def exec_run_def issued_def split: prod.splits)

lemma issued_update [simp]:
  "issued (w\<lparr>clock := t\<rparr>) = issued w" "issued (w\<lparr>files := fs\<rparr>) = issued w"
  "issued (w\<lparr>unreadable := u\<rparr>) = issued w"
  by (simp_all add: issued_def)

lemma runCmd_eq:
  "runCmd c params d w =
     (exec_error (fst (respond w (issued w) (git_invocation params d\<lparr>cmd_name := c\<rparr>))),
      after w (git_invocation params d\<lparr>cmd_name := c\<rparr>))"
  by (simp add: runCmd_def exec_run_after git_invocation_def)

lemma gitCmd_eq:
  "gitCmd r params d w =
     (exec_error (fst (respond w (issued w) (git_invocation params d))),
      after w (git_invocation params d))"
  by (simp add: gitCmd_def runCmd_def exec_run_after git_invocation_def)

lemma runCmdOutput_eq:
  "runCmdOutput ''git'' params d w =
     ((if exec_error (fst (respond w (issued w) (git_invocation params d))) = None
       then TrimSpace (exec_stdout (fst (respond w (issued w) (git_invocation params d))))
       else [], None),
      after w (git_invocation params d))"
  by (simp add: runCmdOutput_def Output_def exec_run_after git_invocation_def)

lemma mostRecentCommit_eq:
  "mostRecentCommit r w =
   runCmdOutput ''git'' [''--no-pager'', ''log'', ''-n'', ''1'', ''--pretty=format:%H''] (Path r) w"
  unfolding mostRecentCommit_def Let_def split_log by simp

lemma mostRecentCommit_no_error: "snd (fst (mostRecentCommit r w)) = None"
  by (simp add: mostRecentCommit_eq runCmdOutput_no_error)

lemma fetchLatestTag_eq:
  "fetchLatestTag r w =
     (case gitCmd r [''fetch'', ''origin'', ''--tags''] (Path r) w of
        (Some err, w1) \<Rightarrow> (([], Some err), w1)
      | (None, w1) \<Rightarrow>
          runCmdOutput ''git'' [''describe'', ''origin'', ''--abbrev=0'', ''--tags''] (Path r) w1)"
  unfolding fetchLatestTag_def Let_def split_describe
  by (simp split: prod.splits option.splits)

subsection \<open>A failed attempt changes nothing in the repository\<close>

lemma checkoutLatestTag_fail: "checkoutLatestTag r w = (Some e, r', w') \<Longrightarrow> r' = r"
  by (auto simp: checkoutLatestTag_def Let_def split: prod.splits option.splits if_splits)

lemma clone_fail: "clone r w = (Some e, r', w') \<Longrightarrow> r' = r"
  using mostRecentCommit_no_error
  apply (auto simp: clone_def Let_def split: prod.splits option.splits if_splits)
   apply (metis fst_conv snd_conv option.distinct(1))+
  done

lemma pull_fail: "pull r w = (Some e, r', w') \<Longrightarrow> r' = r"
  using mostRecentCommit_no_error
  apply (auto simp: pull_def Let_def clone_fail checkoutLatestTag_fail
      split: prod.splits option.splits if_splits)
  apply (metis fst_conv snd_conv option.distinct(1))+
  done

lemma Since_world_at: "Since (world_at f t) 0 = maxDuration"
  by (simp add: Since_def world_at_def Second_def maxDuration_def minDuration_def Let_def)

lemma clone_git_missing:
  "respond w = git_missing \<Longrightarrow>
   clone repo_zones w =
     (Some ExecStartError, repo_zones,
      after w (git_invocation [''clone'', ''-b'', ''main'', ''host/org/zones'', ''/zones''] []))"
  by (simp add: clone_def Let_def gitCmd_eq git_missing_def exec_error_def repo_zones_def
      latestTag_const_def)

subsection \<open>What each function leaves alone\<close>

lemma checkoutLatestTag_frame:
  "checkoutLatestTag r w = (e, r', w') \<Longrightarrow>
     clock w \<le> clock w' \<and> respond w' = respond w \<and> files w' = files w \<and>
     lastPull r' = lastPull r \<and> pulled r' = pulled r \<and> Branch r' = Branch r"
  by (auto simp: checkoutLatestTag_def fetchLatestTag_eq gitCmd_eq runCmdOutput_eq
      mostRecentCommit_eq Let_def split: option.splits if_splits)

lemma checkoutCommit_frame:
  "checkoutCommit r h w = (e, r', w') \<Longrightarrow>
     clock w \<le> clock w' \<and> respond w' = respond w \<and> files w' = files w \<and> r' = r"
  by (auto simp: checkoutCommit_def gitCmd_eq)

lemma clone_frame:
  "clone r w = (e, r', w') \<Longrightarrow>
     clock w \<le> clock w' \<and> respond w' = respond w \<and> files w' = files w \<and>
     (r' = r \<and> e \<noteq> None \<or>
      e = None \<and> pulled r' \<and> clock w \<le> lastPull r' \<and> lastPull r' \<le> clock w')"
  apply (simp add: clone_def gitCmd_eq mostRecentCommit_eq runCmdOutput_eq Let_def
      split: option.splits if_splits prod.splits)
   apply (auto dest!: checkoutLatestTag_frame)
  done

lemma pull_frame:
  "pull r w = (e, r', w') \<Longrightarrow>
     clock w \<le> clock w' \<and> respond w' = respond w \<and> files w' = files w \<and>
     (lastPull r' = lastPull r \<or>
      e = None \<and> clock w \<le> lastPull r' \<and> lastPull r' \<le> clock w')"
  apply (simp add: pull_def gitCmd_eq mostRecentCommit_eq runCmdOutput_eq Let_def
      split: option.splits if_splits prod.splits)
     apply (auto dest!: checkoutLatestTag_frame clone_frame)
  done

lemma pull_success_records_time:
  "pull r w = (None, r', w') \<Longrightarrow> \<not> (pulled r \<and> Branch r = latestTag_const) \<Longrightarrow>
     clock w \<le> lastPull r' \<and> lastPull r' \<le> clock w'"
  apply (simp add: pull_def gitCmd_eq mostRecentCommit_eq runCmdOutput_eq Let_def
      split: option.splits if_splits prod.splits)
   apply (auto dest!: clone_frame)
  done

lemma Pull_loop_frame:
  "Pull_loop n err r w = (e, r', w') \<Longrightarrow>
     clock w \<le> clock w' \<and> respond w' = respond w \<and> files w' = files w \<and>
     (r' = r \<and> e = (if n = 0 then err else e) \<and> (e = None \<longrightarrow> n = 0)
       \<or> e = None \<and> lastPull r' = lastPull r
       \<or> e = None \<and> clock w \<le> lastPull r' \<and> lastPull r' \<le> clock w')"
proof (induction n arbitrary: err r w)
  case 0
  then show ?case by auto
next
  case (Suc n)
  show ?case
  proof (cases "pull r w")
    case (fields e1 r1 w1)
    note f = pull_frame [OF fields]
    show ?thesis
    proof (cases e1)
      case None
      with fields Suc.prems have "e = None" "r' = r1" "w' = w1" by auto
      with f None show ?thesis by auto
    next
      case (Some a)
      with fields have r1: "r1 = r" using pull_fail by blast
      from Some fields Suc.prems have "Pull_loop n (Some a) r1 w1 = (e, r', w')" by simp
      from Suc.IH [OF this] f r1 show ?thesis by (auto split: if_splits)
    qed
  qed
qed

lemma Pull_loop_success_records_time:
  "Pull_loop n err r w = (None, r', w') \<Longrightarrow> (n = 0 \<longrightarrow> err \<noteq> None) \<Longrightarrow>
   \<not> (pulled r \<and> Branch r = latestTag_const) \<Longrightarrow> clock w \<le> lastPull r'"
proof (induction n arbitrary: err w)
  case 0
  then show ?case by simp
next
  case (Suc n)
  show ?case
  proof (cases "pull r w")
    case (fields e1 r1 w1)
    show ?thesis
    proof (cases e1)
      case None
      with fields Suc.prems(1) have "r' = r1" by simp
      with pull_success_records_time [of r w r1 w1] fields None Suc.prems(3)
      show ?thesis by simp
    next
      case (Some a)
      with fields have r1: "r1 = r" using pull_fail by blast
      from Some fields Suc.prems(1) r1 have "Pull_loop n (Some a) r w1 = (None, r', w')" by simp
      from Suc.IH [OF this _ Suc.prems(3)] have "clock w1 \<le> lastPull r'" by simp
      moreover from pull_frame [OF fields] have "clock w \<le> clock w1" by simp
      ultimately show ?thesis by simp
    qed
  qed
qed

lemma Since_less_iff: "Since w t < 5 * Second \<longleftrightarrow> clock w - t < 5 * Second"
  by (simp add: Since_def Let_def maxDuration_def minDuration_def Second_def)

lemma originURL_eq:
  "originURL r w =
     (case files w (Path r) of
        None \<Rightarrow> (([], Some (PathError (Path r))), w)
      | Some node \<Rightarrow>
          ((case recorded_origin r w of None \<Rightarrow> [] | Some u \<Rightarrow> u, None), after w (origin_invocation r)))"
  by (simp add: originURL_def Stat_def runCmdOutput_eq recorded_origin_def origin_invocation_def
      exec_error_def exec_stdout_def split: option.splits outcome.splits)

lemma Prepare_frame:
  "Prepare r w = (e, r', w') \<Longrightarrow>
     clock w \<le> clock w' \<and> respond w' = respond w \<and> lastPull r' = lastPull r"
  by (auto simp: Prepare_def ReadDir_def MkdirAll_def originURL_eq
      split: option.splits if_splits prod.splits fnode.splits)

lemma Pull_frame:
  "Pull r w = (e, r', w') \<Longrightarrow>
     clock w \<le> clock w' \<and>
     (lastPull r' = lastPull r \<or>
      e = None \<and> clock w \<le> lastPull r' \<and> lastPull r' \<le> clock w')"
proof (cases "Since w (lastPull r) < 5 * Second")
  case True
  assume "Pull r w = (e, r', w')"
  with True show ?thesis by (simp add: Pull_def)
next
  case False
  assume "Pull r w = (e, r', w')"
  with False have "Pull_loop numRetries None r w = (e, r', w')"
    by (auto simp: Pull_def split: prod.splits option.splits)
  from Pull_loop_frame [OF this] show ?thesis by auto
qed

lemma run_op_lastPull:
  "run_op op r w = (res, r', w') \<Longrightarrow>
     clock w \<le> clock w' \<and>
     (lastPull r' = lastPull r \<or>
      is_sync op \<and> res = None \<and> clock w \<le> lastPull r' \<and> lastPull r' \<le> clock w')"
proof (cases op)
  case Op_Prepare
  assume "run_op op r w = (res, r', w')"
  with Op_Prepare Prepare_frame [of r w res r' w'] show ?thesis by simp
next
  case Op_Pull
  assume "run_op op r w = (res, r', w')"
  with Op_Pull Pull_frame [of r w res r' w'] show ?thesis by simp
next
  case Op_pull
  assume "run_op op r w = (res, r', w')"
  with Op_pull pull_frame [of r w res r' w'] show ?thesis by simp
next
  case Op_clone
  assume "run_op op r w = (res, r', w')"
  with Op_clone clone_frame [of r w res r' w'] show ?thesis by auto
next
  case Op_checkoutLatestTag
  assume "run_op op r w = (res, r', w')"
  with Op_checkoutLatestTag checkoutLatestTag_frame [of r w res r' w'] show ?thesis by simp
next
  case (Op_checkoutCommit h)
  assume "run_op op r w = (res, r', w')"
  with Op_checkoutCommit checkoutCommit_frame [of r h w res r' w'] show ?thesis by simp
next
  case (Op_wait n)
  assume "run_op op r w = (res, r', w')"
  with Op_wait show ?thesis by auto
qed

lemma isGit_loop_iff: "isGit_loop fs \<longleftrightarrow> (\<exists>f\<in>set fs. IsDir f \<and> Name f = ''.git'')"
  by (induction fs) auto

lemma is_clone_simps [simp]:
  "\<not> is_clone (fetch_invocation r)" "\<not> is_clone (describe_invocation r)"
  "\<not> is_clone (pull_invocation r)" "\<not> is_clone (git_invocation (''checkout'' # ps) d)"
  "\<not> is_clone (git_invocation (''--no-pager'' # ps) d)"
  by (simp_all add: is_clone_def fetch_invocation_def describe_invocation_def pull_invocation_def
      git_invocation_def)

lemma pull_initialized:
  "pulled r \<Longrightarrow> pull r w = (e, r', w') \<Longrightarrow>
     pulled r' \<and> Branch r' = Branch r \<and> Path r' = Path r \<and> PullArgs r' = PullArgs r \<and>
     (\<exists>rest. issued w' = issued w @ (sync_invocation r # rest) \<and>
        (\<forall>iv\<in>set rest. \<not> is_clone iv))"
  apply (simp add: pull_def checkoutLatestTag_def fetchLatestTag_eq gitCmd_eq runCmdOutput_eq
      mostRecentCommit_eq Let_def sync_invocation_def
      split: if_splits option.splits)
           apply (auto simp flip: fetch_invocation_def describe_invocation_def pull_invocation_def)
  done

lemma Pull_loop_initialized:
  "pulled r \<Longrightarrow> Pull_loop n err r w = (e, r', w') \<Longrightarrow>
     (\<exists>new. issued w' = issued w @ new \<and> (0 < n \<longrightarrow> take 1 new = [sync_invocation r]) \<and>
        (\<forall>iv\<in>set new. \<not> is_clone iv))"
proof (induction n arbitrary: err w)
  case 0
  then show ?case by simp
next
  case (Suc n)
  obtain e1 r1 w1 where step: "pull r w = (e1, r1, w1)"
    by (cases "pull r w") auto
  from pull_initialized [OF Suc.prems(1) step] obtain rest where
    rest: "issued w1 = issued w @ (sync_invocation r # rest)" "\<forall>iv\<in>set rest. \<not> is_clone iv"
    by blast
  have nc: "\<not> is_clone (sync_invocation r)"
    by (simp add: sync_invocation_def)
  show ?case
  proof (cases e1)
    case None
    with step Suc.prems(2) have "w' = w1" by simp
    with rest nc show ?thesis by auto
  next
    case (Some a)
    with step have r1: "r1 = r" using pull_fail by blast
    from Some step Suc.prems(2) r1 have "Pull_loop n (Some a) r w1 = (e, r', w')" by simp
    from Suc.IH [OF Suc.prems(1) this] obtain new where
      new: "issued w' = issued w1 @ new" "\<forall>iv\<in>set new. \<not> is_clone iv" by blast
    with rest nc show ?thesis by auto
  qed
qed

lemma is_checkout_git [simp]: "is_checkout (git_invocation ps d) = (take 1 ps = [''checkout''])"
  by (simp add: is_checkout_def git_invocation_def)

subsection \<open>Runs in tag mode\<close>

lemma is_describe_git [simp]: "is_describe (git_invocation ps d) = (take 1 ps = [''describe''])"
  by (simp add: is_describe_def git_invocation_def)

lemma new_issued_runs: "new_issued w w' = map fst (new_runs w w')"
  by (simp add: new_issued_def new_runs_def issued_def drop_map)

lemma new_runs_append:
  "runs w1 = runs w @ a \<Longrightarrow> runs w2 = runs w1 @ b \<Longrightarrow>
   new_runs w w2 = new_runs w w1 @ new_runs w1 w2"
  by (simp add: new_runs_def)

lemma runs_clock_update [simp]: "new_runs (w\<lparr>clock := t\<rparr>) w' = new_runs w w'"
  by (simp add: new_runs_def)

lemma run_properties_append:
  assumes "runs w1 = runs w @ a" and "runs w2 = runs w1 @ b"
  shows "describe_prints T w w2 \<longleftrightarrow> describe_prints T w w1 \<and> describe_prints T w1 w2"
    and "checkouts_succeed w w2 \<longleftrightarrow> checkouts_succeed w w1 \<and> checkouts_succeed w1 w2"
    and "all_succeed w w2 \<longleftrightarrow> all_succeed w w1 \<and> all_succeed w1 w2"
    and "checkouts w w2 = checkouts w w1 + checkouts w1 w2"
  using new_runs_append [OF assms]
  by (simp_all add: describe_prints_def checkouts_succeed_def all_succeed_def checkouts_def
      new_issued_runs)

lemma checkoutLatestTag_extends:
  "checkoutLatestTag r w = (e, r', w') \<Longrightarrow> \<exists>new. runs w' = runs w @ new"
  by (auto simp: checkoutLatestTag_def fetchLatestTag_eq gitCmd_eq runCmdOutput_eq
      mostRecentCommit_eq Let_def split: if_splits option.splits)

lemma clone_extends: "clone r w = (e, r', w') \<Longrightarrow> \<exists>new. runs w' = runs w @ new"
  by (auto simp: clone_def checkoutLatestTag_def fetchLatestTag_eq gitCmd_eq runCmdOutput_eq
      mostRecentCommit_eq Let_def split: if_splits option.splits)

lemma pull_extends: "pull r w = (e, r', w') \<Longrightarrow> \<exists>new. runs w' = runs w @ new"
  by (auto simp: pull_def gitCmd_eq runCmdOutput_eq mostRecentCommit_eq Let_def
      dest: clone_extends checkoutLatestTag_extends split: if_splits option.splits prod.splits)

lemma Pull_loop_extends:
  "Pull_loop n err r w = (e, r', w') \<Longrightarrow> \<exists>new. runs w' = runs w @ new"
proof (induction n arbitrary: err r w)
  case 0
  then show ?case by simp
next
  case (Suc n)
  obtain e1 r1 w1 where step: "pull r w = (e1, r1, w1)" by (cases "pull r w") auto
  from pull_extends [OF step] obtain a where a: "runs w1 = runs w @ a" by blast
  show ?case
  proof (cases e1)
    case None
    with step Suc.prems a show ?thesis by auto
  next
    case (Some x)
    with step Suc.prems have "Pull_loop n (Some x) r1 w1 = (e, r', w')" by simp
    from Suc.IH [OF this] a show ?thesis by auto
  qed
qed

lemma checkoutLatestTag_stable:
  assumes "checkoutLatestTag r w = (e, r', w')" and "T \<noteq> []"
    and "describe_prints T w w'" and "checkouts_succeed w w'"
  shows "(e = None \<longrightarrow> latestTag r' = T \<and> checkouts w w' = (if latestTag r = T then 0 else 1)) \<and>
         (e \<noteq> None \<longrightarrow> r' = r \<and> checkouts w w' = 0) \<and>
         (latestTag r = T \<longrightarrow> r' = r)"
  using assms
  apply (auto simp: checkoutLatestTag_def fetchLatestTag_eq gitCmd_eq runCmdOutput_eq
      mostRecentCommit_eq Let_def describe_prints_def checkouts_succeed_def new_runs_def
      checkouts_def new_issued_def split: if_splits option.splits)
  apply metis+
  done

lemma clone_stable:
  assumes "clone r w = (e, r', w')" and "Branch r = latestTag_const" and "T \<noteq> []"
    and "describe_prints T w w'" and "checkouts_succeed w w'"
  shows "(e \<noteq> None \<longrightarrow> r' = r \<and> checkouts w w' = 0) \<and>
         (e = None \<longrightarrow> pulled r' \<and> Branch r' = Branch r \<and> Path r' = Path r \<and>
            lastPull r' \<le> clock w' \<and>
            (latestTag r' = T \<and> checkouts w w' = (if latestTag r = T then 0 else 1) \<or>
             latestTag r' = latestTag r \<and> checkouts w w' = 0))"
proof -
  let ?c = "git_invocation (''clone'' # (CloneArgs r @ [URL r, Path r])) []"
  let ?l = "git_invocation [''--no-pager'', ''log'', ''-n'', ''1'', ''--pretty=format:%H''] (Path r)"
  show ?thesis
  proof (cases "exec_error (fst (respond w (issued w) ?c))")
    case (Some x)
    with assms(1,2) show ?thesis
      by (auto simp: clone_def gitCmd_eq Let_def checkouts_def new_issued_def is_checkout_def
          git_invocation_def)
  next
    case None
    let ?w1 = "after w ?c"
    let ?w2 = "after ?w1 ?l"
    obtain c where c: "mostRecentCommit (r\<lparr>pulled := True, lastPull := clock ?w1\<rparr>) ?w1 = ((c, None), ?w2)"
      by (simp add: mostRecentCommit_eq runCmdOutput_eq)
    let ?r2 = "r\<lparr>pulled := True, lastPull := clock ?w1, lastCommit := c\<rparr>"
    obtain e3 r3 w3 where inner: "checkoutLatestTag ?r2 ?w2 = (e3, r3, w3)"
      by (cases "checkoutLatestTag ?r2 ?w2") auto
    from None c inner assms(1,2) have res: "e = None" "r' = r3" "w' = w3"
      by (simp_all add: clone_def gitCmd_eq Let_def)
    from checkoutLatestTag_extends [OF inner] obtain b where b: "runs w3 = runs ?w2 @ b" by blast
    have a: "runs ?w2 = runs w @ [(?c, fst (respond w (issued w) ?c)),
        (?l, fst (respond ?w1 (issued ?w1) ?l))]" by simp
    note sp = run_properties_append [OF a b]
    from assms(4,5) res sp have h: "describe_prints T ?w2 w3" "checkouts_succeed ?w2 w3" by simp_all
    have c0: "checkouts w ?w2 = 0" by (simp add: checkouts_def new_issued_def)
    note st = checkoutLatestTag_stable [OF inner assms(3) h]
    note fr = checkoutLatestTag_frame [OF inner]
    have lp: "lastPull r3 \<le> clock w3" using fr by simp
    have cfg: "pulled r3" "Branch r3 = Branch r" using fr by simp_all
    have path: "Path r3 = Path r"
      using inner by (auto simp: checkoutLatestTag_def fetchLatestTag_eq gitCmd_eq runCmdOutput_eq
          mostRecentCommit_eq Let_def split: if_splits option.splits)
    from st sp(4) c0 res lp cfg path show ?thesis
      by (cases e3) auto
  qed
qed


lemma pull_stable:
  assumes "pull r w = (e, r', w')" and "Branch r = latestTag_const" and "T \<noteq> []"
    and "describe_prints T w w'" and "checkouts_succeed w w'"
  shows "(e \<noteq> None \<longrightarrow> r' = r \<and> checkouts w w' = 0) \<and>
         (e = None \<longrightarrow> pulled r' \<and> Branch r' = Branch r \<and> Path r' = Path r \<and>
            (lastPull r \<le> clock w \<longrightarrow> lastPull r' \<le> clock w') \<and>
            (latestTag r' = T \<and> checkouts w w' = (if latestTag r = T then 0 else 1) \<or>
             \<not> pulled r \<and> latestTag r' = latestTag r \<and> checkouts w w' = 0)) \<and>
         (pulled r \<and> latestTag r = T \<longrightarrow> r' = r)"
proof (cases "pulled r")
  case False
  with assms(1) have "clone r w = (e, r', w')" by (simp add: pull_def)
  from clone_stable [OF this assms(2-5)] False show ?thesis by auto
next
  case True
  with assms(1,2) have c: "checkoutLatestTag r w = (e, r', w')"
    by (auto simp: pull_def split: prod.splits option.splits)
  have path: "Path r' = Path r"
    using c by (auto simp: checkoutLatestTag_def fetchLatestTag_eq gitCmd_eq runCmdOutput_eq
        mostRecentCommit_eq Let_def split: if_splits option.splits)
  from checkoutLatestTag_stable [OF c assms(3-5)] checkoutLatestTag_frame [OF c] True path
  show ?thesis by auto
qed

lemma Pull_loop_stable:
  assumes "Pull_loop n err r w = (e, r', w')" and "Branch r = latestTag_const" and "T \<noteq> []"
    and "describe_prints T w w'" and "checkouts_succeed w w'"
  shows "(e \<noteq> None \<longrightarrow> r' = r \<and> checkouts w w' = 0) \<and>
         (e = None \<longrightarrow> (n = 0 \<and> err = None \<and> r' = r \<and> checkouts w w' = 0) \<or>
            pulled r' \<and> Branch r' = Branch r \<and> Path r' = Path r \<and>
            (lastPull r \<le> clock w \<longrightarrow> lastPull r' \<le> clock w') \<and>
            (pulled r \<and> latestTag r = T \<longrightarrow> r' = r) \<and>
            (latestTag r' = T \<and> checkouts w w' = (if latestTag r = T then 0 else 1) \<or>
             \<not> pulled r \<and> latestTag r' = latestTag r \<and> checkouts w w' = 0))"
  using assms
proof (induction n arbitrary: err w)
  case 0
  then show ?case by (auto simp: checkouts_def new_issued_def)
next
  case (Suc n)
  obtain e1 r1 w1 where step: "pull r w = (e1, r1, w1)" by (cases "pull r w") auto
  from pull_extends [OF step] obtain a where a: "runs w1 = runs w @ a" by blast
  show ?case
  proof (cases e1)
    case None
    with step Suc.prems(1) have eq: "e = None" "r' = r1" "w' = w1" by simp_all
    from pull_stable [OF step Suc.prems(2,3)] Suc.prems(4,5) eq None
    show ?thesis by auto
  next
    case (Some x)
    with step Suc.prems(1) have loop: "Pull_loop n (Some x) r1 w1 = (e, r', w')" by simp
    from Pull_loop_extends [OF loop] obtain b where b: "runs w' = runs w1 @ b" by blast
    note sp = run_properties_append [OF a b]
    from Suc.prems(4,5) sp have h1: "describe_prints T w w1" "checkouts_succeed w w1"
      and h2: "describe_prints T w1 w'" "checkouts_succeed w1 w'" by simp_all
    from pull_stable [OF step Suc.prems(2,3) h1] Some
    have r1: "r1 = r" and c1: "checkouts w w1 = 0" by simp_all
    from pull_frame [OF step] have ck: "clock w \<le> clock w1" by simp
    from loop r1 have loop': "Pull_loop n (Some x) r w1 = (e, r', w')" by simp
    from Suc.IH [OF loop' Suc.prems(2,3) h2] sp(4) c1 ck
    show ?thesis by auto
  qed
qed

lemma pull_all_succeed:
  assumes "pull r w = (e, r', w')" and "Branch r = latestTag_const" and "T \<noteq> []"
    and "describe_prints T w w'" and "all_succeed w w'"
  shows "e = None \<and> latestTag r' = T"
  using assms
  apply (auto simp: pull_def clone_def checkoutLatestTag_def fetchLatestTag_eq gitCmd_eq
      runCmdOutput_eq mostRecentCommit_eq Let_def describe_prints_def all_succeed_def new_runs_def
      split: if_splits option.splits)
  done


lemma all_succeed_checkouts: "all_succeed w w' \<Longrightarrow> checkouts_succeed w w'"
  by (auto simp: all_succeed_def checkouts_succeed_def list_all_iff)

lemma Pull_full:
  "\<not> Since w (lastPull r) < 5 * Second \<Longrightarrow> Pull r w = Pull_loop numRetries None r w"
  by (auto simp: Pull_def split: prod.splits option.splits)

lemma not_debounced_later:
  "lastPull r \<le> clock w \<Longrightarrow> 5 * Second \<le> d \<Longrightarrow>
   \<not> Since (w\<lparr>clock := clock w + d\<rparr>) (lastPull r) < 5 * Second"
  by (simp add: Since_less_iff)

lemma not_debounced_past: "\<not> Since w t < 5 * Second \<Longrightarrow> t \<le> clock w"
proof -
  assume "\<not> Since w t < 5 * Second"
  then have "\<not> clock w - t < 5 * Second" by (simp add: Since_less_iff)
  then show ?thesis by (simp add: Second_def)
qed

lemma two_calls_stable:
  assumes tag: "Branch r = latestTag_const" and T: "T \<noteq> []"
    and nd: "\<not> Since v (lastPull r) < 5 * Second"
    and P1: "Pull r v = (None, r1, v1)" and d: "5 * Second \<le> d"
    and P2: "Pull r1 (v1\<lparr>clock := clock v1 + d\<rparr>) = (None, r2, v2)"
    and dp: "describe_prints T v v1" "describe_prints T (v1\<lparr>clock := clock v1 + d\<rparr>) v2"
    and cs: "checkouts_succeed v v1" "checkouts_succeed (v1\<lparr>clock := clock v1 + d\<rparr>) v2"
  shows "checkouts v v1 + checkouts (v1\<lparr>clock := clock v1 + d\<rparr>) v2 =
           (if latestTag r = T then 0 else 1) \<and>
         latestTag r2 = T \<and>
         (latestTag r1 = T \<longrightarrow> checkouts (v1\<lparr>clock := clock v1 + d\<rparr>) v2 = 0 \<and> r2 = r1) \<and>
         (pulled r \<longrightarrow> latestTag r1 = T)"
proof -
  let ?v = "v1\<lparr>clock := clock v1 + d\<rparr>"
  from P1 nd have L1: "Pull_loop numRetries None r v = (None, r1, v1)" by (simp add: Pull_full)
  note s1 = Pull_loop_stable [OF L1 tag T dp(1) cs(1)]
  from not_debounced_past [OF nd] have past: "lastPull r \<le> clock v" .
  from s1 past have f1: "pulled r1" "Branch r1 = latestTag_const" "lastPull r1 \<le> clock v1"
    and a1: "latestTag r1 = T \<and> checkouts v v1 = (if latestTag r = T then 0 else 1) \<or>
             \<not> pulled r \<and> latestTag r1 = latestTag r \<and> checkouts v v1 = 0"
    using tag by (auto simp: numRetries_def)
  from not_debounced_later [OF f1(3) d] P2
  have L2: "Pull_loop numRetries None r1 ?v = (None, r2, v2)" by (simp add: Pull_full)
  note s2 = Pull_loop_stable [OF L2 f1(2) T dp(2) cs(2)]
  from s2 f1(1) have a2: "latestTag r2 = T"
      "checkouts ?v v2 = (if latestTag r1 = T then 0 else 1)" "latestTag r1 = T \<longrightarrow> r2 = r1"
    by (auto simp: numRetries_def)
  from a1 a2 show ?thesis by auto
qed

lemma Pull_all_succeed:
  assumes tag: "Branch r = latestTag_const" and T: "T \<noteq> []"
    and nd: "\<not> Since w (lastPull r) < 5 * Second"
    and P: "Pull r w = (e, r', w')"
    and dp: "describe_prints T w w'" and ok: "all_succeed w w'"
  shows "e = None \<and> latestTag r' = T"
proof -
  obtain e1 r1 w1 where step: "pull r w = (e1, r1, w1)" by (cases "pull r w") auto
  from P nd have L: "Pull_loop numRetries None r w = (e, r', w')" by (simp add: Pull_full)
  from pull_extends [OF step] obtain a where a: "runs w1 = runs w @ a" by blast
  have "\<exists>b. runs w' = runs w1 @ b"
  proof (cases e1)
    case None
    with L step show ?thesis by (simp add: numRetries_def numeral_3_eq_3)
  next
    case (Some x)
    with L step have "Pull_loop 2 (Some x) r1 w1 = (e, r', w')"
      by (simp add: numRetries_def numeral_3_eq_3 numeral_2_eq_2)
    from Pull_loop_extends [OF this] show ?thesis .
  qed
  then obtain b where b: "runs w' = runs w1 @ b" by blast
  from run_properties_append [OF a b] dp ok
  have "describe_prints T w w1" "all_succeed w w1" by simp_all
  from pull_all_succeed [OF step tag T this] have r: "e1 = None" "latestTag r1 = T" by simp_all
  with L step show ?thesis by (simp add: numRetries_def numeral_3_eq_3)
qed

subsection \<open>Running the examples\<close>

lemmas run_defs = Pull_def numRetries_def numeral_3_eq_3 pull_def clone_def checkoutLatestTag_def
  fetchLatestTag_eq gitCmd_eq mostRecentCommit_eq runCmdOutput_eq Let_def exec_error_def
  exec_stdout_def latestTag_const_def Since_less_iff TrimSpace_def white_space_def space_width_def

lemma world_at_simps [simp]:
  "respond (world_at f t) = f" "issued (world_at f t) = []" "runs (world_at f t) = []"
  "clock (world_at f t) = 63900000000 * Second" "files (world_at f t) = t"
  "unreadable (world_at f t) = (\<lambda>p. False)"
  by (simp_all add: world_at_def issued_def)

lemma repo_zones_simps [simp]:
  "URL repo_zones = ''host/org/zones''" "Path repo_zones = ''/zones''"
  "Branch repo_zones = ''main''" "CloneArgs repo_zones = []" "PullArgs repo_zones = []"
  "pulled repo_zones = False" "lastPull repo_zones = 0" "lastCommit repo_zones = []"
  "latestTag repo_zones = []"
  by (simp_all add: repo_zones_def)

lemma repo_tags_simps [simp]:
  "URL repo_tags = ''host/org/zones''" "Path repo_tags = ''/zones''"
  "Branch repo_tags = ''{latest}''" "CloneArgs repo_tags = []" "PullArgs repo_tags = []"
  "pulled repo_tags = False" "lastPull repo_tags = 0" "lastCommit repo_tags = []"
  "latestTag repo_tags = []"
  by (simp_all add: repo_tags_def repo_zones_def latestTag_const_def)

lemma git_missing_simps [simp]: "git_missing h iv = (StartFailed, 0)"
  by (simp add: git_missing_def)

lemma git_ok_simps [simp]:
  "git_ok h (git_invocation (''clone'' # ps) d) = (Exited 0 [], 1000)"
  "git_ok h (git_invocation (''pull'' # ps) d) = (Exited 0 [], 1000)"
  "git_ok h (git_invocation (''fetch'' # ps) d) = (Exited 0 [], 1000)"
  "git_ok h (git_invocation (''checkout'' # ps) d) = (Exited 0 [], 1000)"
  "git_ok h (git_invocation (''describe'' # ps) d) = (Exited 0 (''v1.0'' @ [CHR 0x0A]), 1000)"
  "git_ok h (git_invocation (''--no-pager'' # ps) d) = (Exited 0 (''4f2a'' @ [CHR 0x0A]), 1000)"
  by (simp_all add: git_ok_def git_invocation_def)

lemma git_no_tags_simps [simp]:
  "git_no_tags h (git_invocation (''clone'' # ps) d) = (Exited 0 [], 1000)"
  "git_no_tags h (git_invocation (''fetch'' # ps) d) = (Exited 0 [], 1000)"
  "git_no_tags h (git_invocation (''describe'' # ps) d) = (Exited 128 [], 1000)"
  "git_no_tags h (git_invocation (''--no-pager'' # ps) d) = (Exited 0 (''4f2a'' @ [CHR 0x0A]), 1000)"
  by (simp_all add: git_no_tags_def git_invocation_def)

lemma git_ok_config [simp]:
  "git_ok h (git_invocation (''config'' # ps) d) = (Exited 0 (''host/org/zones.git'' @ [CHR 0x0A]), 1000)"
  by (simp add: git_ok_def git_invocation_def)

lemma recorded_origin_ok:
  "recorded_origin repo_zones (world_at git_ok t) = Some ''host/org/zones.git''"
  by (simp add: recorded_origin_def origin_invocation_def TrimSpace_def white_space_def space_width_def)

lemma recorded_origin_other:
  "recorded_origin repo_zones (world_at git_other_origin t) = Some ''host/org/other.git''"
  by (simp add: recorded_origin_def origin_invocation_def git_other_origin_def TrimSpace_def
      white_space_def space_width_def)

lemma TrimSuffix_examples:
  "TrimSuffix ''host/org/zones.git'' ''.git'' = ''host/org/zones''"
  "TrimSuffix ''host/org/zones'' ''.git'' = ''host/org/zones''"
  "TrimSuffix ''host/org/other.git'' ''.git'' = ''host/org/other''"
  by (simp_all add: TrimSuffix_def HasSuffix_def)

lemma recorded_origin_missing: "recorded_origin repo_zones (world_at git_missing t) = None"
  by (simp add: recorded_origin_def origin_invocation_def)

lemmas example_defs = run_defs fetch_invocation_def describe_invocation_def checkouts_def
  new_issued_def new_runs_def describe_prints_def all_succeed_def checkouts_succeed_def
  git_checkout_fails_once_def git_fetch_fails_once_def is_checkout_def is_describe_def
  git_invocation_def git_ok_def

lemma TrimSpace_no_break_space:
  "TrimSpace (''v1.0'' @ [CHR 0xC2, CHR 0xA0, CHR 0x0A]) = ''v1.0''"
  by (simp add: TrimSpace_def white_space_def space_width_def)

section \<open>The command runner\<close>

lemma runCmdOutput_success:
  "respond w (issued w) \<lparr>cmd_name = c, cmd_args = params, cmd_dir = d\<rparr> = (Exited 0 out, t)
   \<Longrightarrow> fst (runCmdOutput c params d w) = (TrimSpace out, None)"
  by (simp add: runCmdOutput_def Output_def exec_run_after exec_error_def exec_stdout_def)

lemma runCmdOutput_failure:
  "exec_error (fst (respond w (issued w) \<lparr>cmd_name = c, cmd_args = params, cmd_dir = d\<rparr>)) = Some e
   \<Longrightarrow> fst (runCmdOutput c params d w) = ([], None)"
  by (simp add: runCmdOutput_def Output_def exec_run_after)

text \<open>
  C1.  The claim: \<open>runCmdOutput\<close> returns the trimmed output and no error when the process
  exits with status 0 (lemma \<open>runCmdOutput_success\<close>), and a non-nil error when the binary
  cannot be started or the process exits with another status.  The second half fails on the
  code (lemma \<open>runCmdOutput_failure\<close>): where \<open>git describe\<close> exits with status 128, and where the binary cannot be started,
  \<open>cmd.Output\<close> reports an error and \<open>runCmdOutput\<close> returns the empty string with a nil
  error.
\<close>

theorem runCmdOutput_failure_returns_nil:
  "exec_error (fst (git_no_tags [] (describe_invocation repo_zones))) = Some (ExecExitError 128) \<and>
   fst (runCmdOutput ''git'' [''describe'', ''origin'', ''--abbrev=0'', ''--tags''] ''/zones''
          (world_at git_no_tags no_files)) = ([], None) \<and>
   exec_error (fst (git_missing [] (describe_invocation repo_zones))) = Some ExecStartError \<and>
   fst (runCmdOutput ''git'' [''describe'', ''origin'', ''--abbrev=0'', ''--tags''] ''/zones''
          (world_at git_missing no_files)) = ([], None)"
  by (simp add: runCmdOutput_eq world_at_def git_no_tags_def git_missing_def exec_error_def
      describe_invocation_def git_invocation_def repo_zones_def)

section \<open>The accessor of the repository list\<close>

lemma Git_Repo_in_range:
  "0 \<le> i \<Longrightarrow> Git_Repo g i = Inr (if i < int (length g) then Some (g ! nat i) else None)"
  by (simp add: Git_Repo_def)

lemma Git_Repo_negative: "i < 0 \<Longrightarrow> Git_Repo g i = Inl IndexOutOfRange"
  by (simp add: Git_Repo_def)

text \<open>
  C10.  The claim: \<open>Git.Repo(i)\<close> returns the repository at \<open>i\<close> for a valid index and nil
  for every other index, negative ones included.  From 0 upwards it does (lemma
  \<open>Git_Repo_in_range\<close>); at \<open>-1\<close> the test \<open>i < len(g)\<close> passes and \<open>g[i]\<close> panics.
\<close>

theorem Git_Repo_negative_index_panics:
  "Git_Repo [repo_zones] (- 1) = Inl IndexOutOfRange"
  by (simp add: Git_Repo_def)

section \<open>Bounded retry\<close>

text \<open>
  C2.  When a call of \<open>Pull\<close> gets past the debounce test and its three attempts all fail,
  it returns the error of the third attempt, and the repository it leaves is the one it
  was given: the initialized flag, the last-pull time, the last commit hash and the latest
  tag are what they were.
\<close>

theorem Pull_exhausted_retries_leave_state:
  assumes "\<not> Since w (lastPull r) < 5 * Second"
    and "pull r w = (Some e1, r1, w1)"
    and "pull r1 w1 = (Some e2, r2, w2)"
    and "pull r2 w2 = (Some e3, r3, w3)"
  shows "Pull r w = (Some e3, r, w3) \<and> r1 = r \<and> r2 = r \<and> r3 = r"
proof -
  have r1: "r1 = r" using assms(2) by (rule pull_fail)
  have r2: "r2 = r" using assms(3) r1 pull_fail by blast
  have r3: "r3 = r" using assms(4) r2 pull_fail by blast
  have "Pull_loop numRetries None r w = (Some e3, r, w3)"
    using assms(2-4) r1 r2 r3 by (simp add: numRetries_def numeral_3_eq_3)
  then show ?thesis using assms(1) r1 r2 r3 by (simp add: Pull_def)
qed

theorem Pull_exhausted_retries_witness:
  "\<not> Since (world_at git_missing no_files) (lastPull repo_zones) < 5 * Second \<and>
   Pull repo_zones (world_at git_missing no_files) =
     (Some ExecStartError, repo_zones,
      after (after (after (world_at git_missing no_files)
        (git_invocation [''clone'', ''-b'', ''main'', ''host/org/zones'', ''/zones''] []))
        (git_invocation [''clone'', ''-b'', ''main'', ''host/org/zones'', ''/zones''] []))
        (git_invocation [''clone'', ''-b'', ''main'', ''host/org/zones'', ''/zones''] []))"
proof -
  let ?c = "git_invocation [''clone'', ''-b'', ''main'', ''host/org/zones'', ''/zones''] []"
  let ?w = "world_at git_missing no_files"
  have fresh: "\<not> pulled repo_zones" "lastPull repo_zones = 0"
    by (simp_all add: repo_zones_def)
  have d: "\<not> Since ?w (lastPull repo_zones) < 5 * Second"
    by (simp add: fresh Since_world_at maxDuration_def Second_def)
  have p: "pull repo_zones w = (Some ExecStartError, repo_zones, after w ?c)"
    if "respond w = git_missing" for w
    using that fresh by (simp add: pull_def clone_git_missing)
  have a1: "pull repo_zones ?w = (Some ExecStartError, repo_zones, after ?w ?c)"
    by (rule p) (simp add: world_at_def)
  have a2: "pull repo_zones (after ?w ?c) = (Some ExecStartError, repo_zones, after (after ?w ?c) ?c)"
    by (rule p) (simp add: world_at_def)
  have a3: "pull repo_zones (after (after ?w ?c) ?c) =
      (Some ExecStartError, repo_zones, after (after (after ?w ?c) ?c) ?c)"
    by (rule p) (simp add: world_at_def)
  from Pull_exhausted_retries_leave_state [OF d a1 a2 a3] d show ?thesis by simp
qed

section \<open>Debounce\<close>

text \<open>
  C3, as amended.  Whenever the time since the recorded last-pull timestamp is below five
  seconds, \<open>Pull\<close> returns nil at once: the repository and the world, with its log of
  external commands, are untouched.  In particular a call that starts less than five
  seconds after the start of an earlier call is such a no-op when the earlier call got past
  the debounce test and succeeded by a clone or by a branch pull (every mode but tag mode on
  an initialized repository): these are the paths that record the timestamp.
\<close>

theorem Pull_debounce:
  "(Since w (lastPull r) < 5 * Second \<longrightarrow> Pull r w = (None, r, w)) \<and>
   (\<not> Since w (lastPull r) < 5 * Second \<and> \<not> (pulled r \<and> Branch r = latestTag_const) \<and>
    Pull r w = (None, r1, w1) \<and> clock w2 - clock w < 5 * Second
      \<longrightarrow> Pull r1 w2 = (None, r1, w2))"
proof (intro conjI impI)
  assume "Since w (lastPull r) < 5 * Second"
  then show "Pull r w = (None, r, w)" by (simp add: Pull_def)
next
  assume a: "\<not> Since w (lastPull r) < 5 * Second \<and> \<not> (pulled r \<and> Branch r = latestTag_const) \<and>
    Pull r w = (None, r1, w1) \<and> clock w2 - clock w < 5 * Second"
  then have "Pull_loop numRetries None r w = (None, r1, w1)"
    by (auto simp: Pull_def split: prod.splits option.splits)
  then have "clock w \<le> lastPull r1"
    using a by (intro Pull_loop_success_records_time [of numRetries None r w r1 w1])
      (simp_all add: numRetries_def)
  with a have "Since w2 (lastPull r1) < 5 * Second" by (simp add: Since_less_iff)
  then show "Pull r1 w2 = (None, r1, w2)" by (simp add: Pull_def)
qed

theorem Pull_debounce_witness:
  "Since (world_at git_ok no_files) (lastPull (repo_zones\<lparr>lastPull := 63900000000 * Second - Second\<rparr>))
     < 5 * Second \<and>
   Pull (repo_zones\<lparr>lastPull := 63900000000 * Second - Second\<rparr>) (world_at git_ok no_files) =
     (None, repo_zones\<lparr>lastPull := 63900000000 * Second - Second\<rparr>, world_at git_ok no_files) \<and>
   \<not> Since (world_at git_ok no_files) (lastPull repo_zones) < 5 * Second \<and>
   \<not> (pulled repo_zones \<and> Branch repo_zones = latestTag_const) \<and>
   Pull repo_zones (world_at git_ok no_files) =
     (None,
      repo_zones\<lparr>pulled := True, lastPull := 63900000000 * Second + 1000, lastCommit := ''4f2a''\<rparr>,
      after (after (world_at git_ok no_files)
        (git_invocation [''clone'', ''-b'', ''main'', ''host/org/zones'', ''/zones''] []))
        (git_invocation [''--no-pager'', ''log'', ''-n'', ''1'', ''--pretty=format:%H''] ''/zones'')) \<and>
   clock (world_at git_ok no_files\<lparr>clock := 63900000000 * Second + 4 * Second\<rparr>)
     - clock (world_at git_ok no_files) < 5 * Second \<and>
   Pull (repo_zones\<lparr>pulled := True, lastPull := 63900000000 * Second + 1000, lastCommit := ''4f2a''\<rparr>)
        (world_at git_ok no_files\<lparr>clock := 63900000000 * Second + 4 * Second\<rparr>) =
     (None,
      repo_zones\<lparr>pulled := True, lastPull := 63900000000 * Second + 1000, lastCommit := ''4f2a''\<rparr>,
      world_at git_ok no_files\<lparr>clock := 63900000000 * Second + 4 * Second\<rparr>)"
proof -
  let ?W = "world_at git_ok no_files"
  let ?R = "repo_zones\<lparr>lastPull := 63900000000 * Second - Second\<rparr>"
  let ?R1 = "repo_zones\<lparr>pulled := True, lastPull := 63900000000 * Second + 1000,
    lastCommit := ''4f2a''\<rparr>"
  let ?W1 = "after (after ?W
        (git_invocation [''clone'', ''-b'', ''main'', ''host/org/zones'', ''/zones''] []))
        (git_invocation [''--no-pager'', ''log'', ''-n'', ''1'', ''--pretty=format:%H''] ''/zones'')"
  let ?W2 = "?W\<lparr>clock := 63900000000 * Second + 4 * Second\<rparr>"
  have h1: "Since ?W (lastPull ?R) < 5 * Second"
    by (simp add: Since_less_iff) (simp add: Second_def)
  have h2: "\<not> Since ?W (lastPull repo_zones) < 5 * Second"
    by (simp add: Since_less_iff) (simp add: Second_def)
  have h3: "\<not> (pulled repo_zones \<and> Branch repo_zones = latestTag_const)" by simp
  have h4: "Pull repo_zones ?W = (None, ?R1, ?W1)"
    by (simp add: run_defs) (simp add: Second_def)
  have h5: "clock ?W2 - clock ?W < 5 * Second" by (simp add: Second_def)
  from Pull_debounce [of ?W ?R] h1
  have c1: "Pull ?R ?W = (None, ?R, ?W)" by blast
  from Pull_debounce [of ?W repo_zones ?R1 ?W1 ?W2] h2 h3 h4 h5
  have c2: "Pull ?R1 ?W2 = (None, ?R1, ?W2)" by blast
  from h1 c1 h2 h3 h4 h5 c2 show ?thesis by blast
qed

text \<open>
  The claim as written, that the second of any two calls within five seconds returns
  success without an external command, fails after a failed call: with no \<open>git\<close> binary
  the first call makes its three attempts and returns the error; the timestamp is not
  recorded, so a second call one second after the first started makes three more attempts
  and returns the error again.  It also fails in tag mode on an initialized repository,
  where a successful call records no timestamp: a second call one second after the first
  started fetches and resolves the tag again.
\<close>

theorem Pull_again_within_window_runs_git:
  "Pull repo_zones (world_at git_missing no_files) =
     (Some ExecStartError, repo_zones,
      after (after (after (world_at git_missing no_files)
        (git_invocation [''clone'', ''-b'', ''main'', ''host/org/zones'', ''/zones''] []))
        (git_invocation [''clone'', ''-b'', ''main'', ''host/org/zones'', ''/zones''] []))
        (git_invocation [''clone'', ''-b'', ''main'', ''host/org/zones'', ''/zones''] [])) \<and>
   clock (after (after (after (world_at git_missing no_files)
        (git_invocation [''clone'', ''-b'', ''main'', ''host/org/zones'', ''/zones''] []))
        (git_invocation [''clone'', ''-b'', ''main'', ''host/org/zones'', ''/zones''] []))
        (git_invocation [''clone'', ''-b'', ''main'', ''host/org/zones'', ''/zones''] []))
     = clock (world_at git_missing no_files) \<and>
   fst (Pull repo_zones
      ((after (after (after (world_at git_missing no_files)
        (git_invocation [''clone'', ''-b'', ''main'', ''host/org/zones'', ''/zones''] []))
        (git_invocation [''clone'', ''-b'', ''main'', ''host/org/zones'', ''/zones''] []))
        (git_invocation [''clone'', ''-b'', ''main'', ''host/org/zones'', ''/zones''] []))
         \<lparr>clock := clock (world_at git_missing no_files) + Second\<rparr>)) = Some ExecStartError \<and>
   new_issued
      ((after (after (after (world_at git_missing no_files)
        (git_invocation [''clone'', ''-b'', ''main'', ''host/org/zones'', ''/zones''] []))
        (git_invocation [''clone'', ''-b'', ''main'', ''host/org/zones'', ''/zones''] []))
        (git_invocation [''clone'', ''-b'', ''main'', ''host/org/zones'', ''/zones''] []))
         \<lparr>clock := clock (world_at git_missing no_files) + Second\<rparr>)
      (snd (snd (Pull repo_zones
      ((after (after (after (world_at git_missing no_files)
        (git_invocation [''clone'', ''-b'', ''main'', ''host/org/zones'', ''/zones''] []))
        (git_invocation [''clone'', ''-b'', ''main'', ''host/org/zones'', ''/zones''] []))
        (git_invocation [''clone'', ''-b'', ''main'', ''host/org/zones'', ''/zones''] []))
         \<lparr>clock := clock (world_at git_missing no_files) + Second\<rparr>))))
     = [git_invocation [''clone'', ''-b'', ''main'', ''host/org/zones'', ''/zones''] [],
        git_invocation [''clone'', ''-b'', ''main'', ''host/org/zones'', ''/zones''] [],
        git_invocation [''clone'', ''-b'', ''main'', ''host/org/zones'', ''/zones''] []] \<and>
   Pull (repo_tags\<lparr>pulled := True, latestTag := ''v1.0''\<rparr>) (world_at git_ok no_files) =
     (None, repo_tags\<lparr>pulled := True, latestTag := ''v1.0''\<rparr>,
      after (after (world_at git_ok no_files) (fetch_invocation repo_tags))
        (describe_invocation repo_tags)) \<and>
   clock ((after (after (world_at git_ok no_files) (fetch_invocation repo_tags))
        (describe_invocation repo_tags))\<lparr>clock := clock (world_at git_ok no_files) + Second\<rparr>)
     - clock (world_at git_ok no_files) < 5 * Second \<and>
   new_issued
      ((after (after (world_at git_ok no_files) (fetch_invocation repo_tags))
        (describe_invocation repo_tags))\<lparr>clock := clock (world_at git_ok no_files) + Second\<rparr>)
      (snd (snd (Pull (repo_tags\<lparr>pulled := True, latestTag := ''v1.0''\<rparr>)
      ((after (after (world_at git_ok no_files) (fetch_invocation repo_tags))
        (describe_invocation repo_tags))\<lparr>clock := clock (world_at git_ok no_files) + Second\<rparr>))))
     = [fetch_invocation repo_tags, describe_invocation repo_tags]"
  by (simp add: run_defs new_issued_def fetch_invocation_def describe_invocation_def)
    (simp add: Second_def)

section \<open>Missing tags\<close>

text \<open>
  On an initialized repository in tag mode the error is surfaced: when the fetch succeeds
  and \<open>git describe\<close> names no tag, every attempt returns \<open>NoTagsFound\<close> and so does \<open>Pull\<close>,
  with the repository unchanged.
\<close>

lemma Pull_no_tags_initialized:
  assumes "pulled r" and "Branch r = latestTag_const"
    and "\<not> Since w (lastPull r) < 5 * Second"
    and "\<forall>h. exec_error (fst (respond w h (fetch_invocation r))) = None"
    and "\<forall>h. TrimSpace (exec_stdout (fst (respond w h (describe_invocation r)))) = [] \<or>
             exec_error (fst (respond w h (describe_invocation r))) = Some (ExecExitError 128)"
  shows "fst (Pull r w) = Some (NoTagsFound (URL r)) \<and> fst (snd (Pull r w)) = r"
proof -
  have p: "pull r v = (Some (NoTagsFound (URL r)), r,
      after (after v (fetch_invocation r)) (describe_invocation r))"
    if "respond v = respond w" for v
    using assms(1,2) that assms(4) [rule_format, of "issued v"]
      assms(5) [rule_format, of "issued v @ [fetch_invocation r]"]
    by (auto simp: pull_def checkoutLatestTag_def fetchLatestTag_eq gitCmd_eq runCmdOutput_eq
        fetch_invocation_def describe_invocation_def)
  show ?thesis
    using assms(3) by (simp add: Pull_def numRetries_def numeral_3_eq_3 p)
qed

text \<open>The only error \<open>clone\<close> can return is the one of the \<open>git clone\<close> process itself.\<close>

lemma clone_error_is_execution: "clone r w = (Some e, r', w') \<Longrightarrow> ExecutionError e"
  by (auto simp: clone_def gitCmd_eq mostRecentCommit_eq runCmdOutput_eq exec_error_def Let_def
      split: prod.splits option.splits if_splits outcome.splits)

text \<open>
  C4.  The claim: in tag mode, when no tag exists on the remote, the synchronization call
  fails with a TagResolutionError, on an initialized repository and on the initial clone
  alike.  On the clone path it does not: \<open>clone\<close> logs the error of \<open>checkoutLatestTag\<close>
  and returns the \<open>err\<close> of \<open>mostRecentCommit\<close>, so \<open>Pull\<close> on a fresh repository reports
  success although \<open>checkoutLatestTag\<close> returned \<open>NoTagsFound\<close>.
\<close>

theorem clone_hides_missing_tags:
  "Pull repo_tags (world_at git_no_tags no_files) =
     (None,
      repo_tags\<lparr>pulled := True, lastPull := 63900000000 * Second + 1000, lastCommit := ''4f2a''\<rparr>,
      after (after (after (after (world_at git_no_tags no_files)
        (git_invocation [''clone'', ''host/org/zones'', ''/zones''] []))
        (git_invocation [''--no-pager'', ''log'', ''-n'', ''1'', ''--pretty=format:%H''] ''/zones''))
        (fetch_invocation repo_tags))
        (describe_invocation repo_tags)) \<and>
   fst (checkoutLatestTag
      (repo_tags\<lparr>pulled := True, lastPull := 63900000000 * Second + 1000, lastCommit := ''4f2a''\<rparr>)
      (after (after (world_at git_no_tags no_files)
        (git_invocation [''clone'', ''host/org/zones'', ''/zones''] []))
        (git_invocation [''--no-pager'', ''log'', ''-n'', ''1'', ''--pretty=format:%H''] ''/zones'')))
     = Some (NoTagsFound ''host/org/zones'')"
  by (simp add: run_defs fetch_invocation_def describe_invocation_def) (simp add: Second_def)

section \<open>The last-pull timestamp\<close>

text \<open>
  C5.  Along every sequence of operations on a repository, from any state: an operation
  after which the last-pull timestamp differs from before is a synchronization attempt
  (\<open>Pull\<close>, or its helpers \<open>pull\<close> and \<open>clone\<close>) that returned nil, so a failing attempt
  leaves the timestamp as it was; and when the timestamp is not in the future at the start,
  it never moves backwards.
\<close>

theorem lastPull_only_advances_on_success:
  "\<forall>x \<in> set (run_ops ops r w).
     case x of (op, res, t0, t1) \<Rightarrow>
       (t1 \<noteq> t0 \<longrightarrow> is_sync op \<and> res = None) \<and> (lastPull r \<le> clock w \<longrightarrow> t0 \<le> t1)"
proof (induction ops arbitrary: r w)
  case Nil
  show ?case by simp
next
  case (Cons op ops)
  obtain res r1 w1 where step: "run_op op r w = (res, r1, w1)"
    by (cases "run_op op r w") auto
  note f = run_op_lastPull [OF step]
  have head: "(lastPull r1 \<noteq> lastPull r \<longrightarrow> is_sync op \<and> res = None) \<and>
      (lastPull r \<le> clock w \<longrightarrow> lastPull r \<le> lastPull r1)"
    using f by auto
  have inv: "lastPull r \<le> clock w \<Longrightarrow> lastPull r1 \<le> clock w1"
    using f by auto
  have tail: "\<forall>x \<in> set (run_ops ops r1 w1).
     case x of (op, res, t0, t1) \<Rightarrow>
       (t1 \<noteq> t0 \<longrightarrow> is_sync op \<and> res = None) \<and> (lastPull r \<le> clock w \<longrightarrow> t0 \<le> t1)"
    using Cons.IH [of r1 w1] inv by (auto split: prod.splits)
  from head tail step show ?case by simp
qed

theorem lastPull_only_advances_witness:
  "run_ops [Op_Pull, Op_checkoutCommit ''4f2a''] repo_zones (world_at git_ok no_files) =
     [(Op_Pull, None, 0, 63900000000 * Second + 1000),
      (Op_checkoutCommit ''4f2a'', None, 63900000000 * Second + 1000, 63900000000 * Second + 1000)] \<and>
   63900000000 * Second + 1000 \<noteq> 0 \<and>
   lastPull repo_zones \<le> clock (world_at git_ok no_files) \<and>
   is_sync Op_Pull \<and> (0::int) \<le> 63900000000 * Second + 1000"
proof -
  let ?W = "world_at git_ok no_files"
  let ?ops = "[Op_Pull, Op_checkoutCommit ''4f2a'']"
  have run: "run_ops ?ops repo_zones ?W =
     [(Op_Pull, None, 0, 63900000000 * Second + 1000),
      (Op_checkoutCommit ''4f2a'', None, 63900000000 * Second + 1000, 63900000000 * Second + 1000)]"
    by (simp add: run_defs checkoutCommit_def) (simp add: Second_def)
  have ne: "63900000000 * Second + 1000 \<noteq> 0" by (simp add: Second_def)
  have le: "lastPull repo_zones \<le> clock ?W" by (simp add: Second_def)
  from lastPull_only_advances_on_success [of ?ops repo_zones ?W] run ne le
  have "is_sync Op_Pull \<and> (0::int) \<le> 63900000000 * Second + 1000" by simp
  with run ne le show ?thesis by blast
qed

section \<open>Preparing the directory\<close>

text \<open>
  C6, as amended.  When the local path is a directory that can be listed and holds a
  directory \<open>.git\<close>, and the origin its working copy records equals the configured URL once
  a trailing \<open>.git\<close> is stripped from both, \<open>Prepare\<close> returns nil and sets the initialized
  flag, having run nothing but the query for the origin.  A synchronization of the repository
  it leaves, when not debounced, starts with \<open>git pull\<close> on the branch (in tag mode with
  \<open>git fetch\<close> of the tags) and runs no \<open>git clone\<close> at all.
\<close>

theorem Prepare_adopts_matching_working_copy:
  assumes "files w (Path r) = Some (Directory entries)"
    and "\<not> unreadable w (Path r)"
    and "\<exists>f\<in>set entries. IsDir f \<and> Name f = ''.git''"
    and "recorded_origin r w = Some u"
    and "TrimSuffix u ''.git'' = TrimSuffix (URL r) ''.git''"
  shows "Prepare r w = (None, r\<lparr>pulled := True\<rparr>, after w (origin_invocation r)) \<and>
     (\<forall>v. \<not> Since v (lastPull r) < 5 * Second \<longrightarrow>
        (case Pull (r\<lparr>pulled := True\<rparr>) v of
           (e, r', v') \<Rightarrow>
             take 1 (new_issued v v') = [sync_invocation r] \<and>
             (\<forall>iv\<in>set (new_issued v v'). \<not> is_clone iv)))"
proof (intro conjI allI impI)
  from assms(3) have "entries \<noteq> []" by auto
  moreover from assms(3) have "isGit_loop entries" by (simp only: isGit_loop_iff)
  ultimately show "Prepare r w = (None, r\<lparr>pulled := True\<rparr>, after w (origin_invocation r))"
    using assms(1,2,4,5) by (simp add: Prepare_def ReadDir_def originURL_eq)
next
  fix v
  assume nd: "\<not> Since v (lastPull r) < 5 * Second"
  let ?r = "r\<lparr>pulled := True\<rparr>"
  obtain e r' v' where P: "Pull ?r v = (e, r', v')"
    by (cases "Pull ?r v") auto
  with nd have "Pull_loop numRetries None ?r v = (e, r', v')"
    by (auto simp: Pull_def split: prod.splits option.splits)
  from Pull_loop_initialized [OF _ this] obtain new where
    new: "issued v' = issued v @ new" "take 1 new = [sync_invocation ?r]"
      "\<forall>iv\<in>set new. \<not> is_clone iv"
    by (auto simp: numRetries_def)
  have "sync_invocation ?r = sync_invocation r"
    by (simp add: sync_invocation_def fetch_invocation_def pull_invocation_def)
  with new have "take 1 (new_issued v v') = [sync_invocation r] \<and>
             (\<forall>iv\<in>set (new_issued v v'). \<not> is_clone iv)"
    by (simp add: new_issued_def)
  with P show "case Pull ?r v of
           (e, r', v') \<Rightarrow>
             take 1 (new_issued v v') = [sync_invocation r] \<and>
             (\<forall>iv\<in>set (new_issued v v'). \<not> is_clone iv)"
    by simp
qed

theorem Prepare_adopts_witness:
  "files (world_at git_ok working_copy) (Path repo_zones) =
     Some (Directory [\<lparr>Name = ''.git'', IsDir = True\<rparr>, \<lparr>Name = ''db.example.org'', IsDir = False\<rparr>]) \<and>
   \<not> unreadable (world_at git_ok working_copy) (Path repo_zones) \<and>
   recorded_origin repo_zones (world_at git_ok working_copy) = Some ''host/org/zones.git'' \<and>
   TrimSuffix ''host/org/zones.git'' ''.git'' = TrimSuffix (URL repo_zones) ''.git'' \<and>
   Prepare repo_zones (world_at git_ok working_copy) =
     (None, repo_zones\<lparr>pulled := True\<rparr>,
      after (world_at git_ok working_copy) (origin_invocation repo_zones)) \<and>
   \<not> Since (after (world_at git_ok working_copy) (origin_invocation repo_zones))
        (lastPull repo_zones) < 5 * Second \<and>
   take 1 (new_issued (after (world_at git_ok working_copy) (origin_invocation repo_zones))
      (snd (snd (Pull (repo_zones\<lparr>pulled := True\<rparr>)
         (after (world_at git_ok working_copy) (origin_invocation repo_zones))))))
     = [git_invocation [''pull'', ''origin'', ''main''] ''/zones'']"
proof -
  let ?W = "world_at git_ok working_copy"
  let ?V = "after ?W (origin_invocation repo_zones)"
  let ?es = "[\<lparr>Name = ''.git'', IsDir = True\<rparr>, \<lparr>Name = ''db.example.org'', IsDir = False\<rparr>]"
  have h1: "files ?W (Path repo_zones) = Some (Directory ?es)"
    by (simp add: working_copy_def)
  have h0: "\<not> unreadable ?W (Path repo_zones)" by simp
  have h2: "\<exists>f\<in>set ?es. IsDir f \<and> Name f = ''.git''" by simp
  have h3: "recorded_origin repo_zones ?W = Some ''host/org/zones.git''"
    by (rule recorded_origin_ok)
  have h4: "TrimSuffix ''host/org/zones.git'' ''.git'' = TrimSuffix (URL repo_zones) ''.git''"
    by (simp add: TrimSuffix_examples)
  have nd: "\<not> Since ?V (lastPull repo_zones) < 5 * Second"
    by (simp add: Since_less_iff) (simp add: Second_def)
  note inst = Prepare_adopts_matching_working_copy [OF h1 h0 h2 h3 h4]
  from inst have c1: "Prepare repo_zones ?W = (None, repo_zones\<lparr>pulled := True\<rparr>, ?V)" by blast
  from inst [THEN conjunct2, rule_format, OF nd]
  have c2: "take 1 (new_issued ?V (snd (snd (Pull (repo_zones\<lparr>pulled := True\<rparr>) ?V))))
     = [git_invocation [''pull'', ''origin'', ''main''] ''/zones'']"
    by (simp add: sync_invocation_def pull_invocation_def latestTag_const_def split: prod.splits)
  from h1 h0 h3 h4 c1 nd c2 show ?thesis by blast
qed

text \<open>
  The claim as written, for every path that holds a working copy of the same origin, fails in
  two places.  A working copy whose \<open>.git\<close> is a file (a linked worktree, a submodule) is
  refused as a directory that is not empty, since the loop of \<open>Prepare\<close> looks for a
  directory of that name.  A working copy whose directory cannot be listed is taken for a
  missing one: \<open>os.MkdirAll\<close> finds the directory and \<open>Prepare\<close> returns nil without setting
  the flag, so the next synchronization starts with \<open>git clone\<close>.
\<close>

theorem Prepare_rejects_gitfile_and_skips_unreadable:
  "files (world_at git_ok gitfile_working_copy) (Path repo_zones) =
     Some (Directory [\<lparr>Name = ''.git'', IsDir = False\<rparr>, \<lparr>Name = ''db.example.org'', IsDir = False\<rparr>]) \<and>
   recorded_origin repo_zones (world_at git_ok gitfile_working_copy) = Some ''host/org/zones.git'' \<and>
   TrimSuffix ''host/org/zones.git'' ''.git'' = TrimSuffix (URL repo_zones) ''.git'' \<and>
   Prepare repo_zones (world_at git_ok gitfile_working_copy) =
     (Some (DirectoryNotEmpty ''/zones''), repo_zones, world_at git_ok gitfile_working_copy) \<and>
   files ((world_at git_ok working_copy)\<lparr>unreadable := (\<lambda>p. p = ''/zones'')\<rparr>) (Path repo_zones) =
     Some (Directory [\<lparr>Name = ''.git'', IsDir = True\<rparr>, \<lparr>Name = ''db.example.org'', IsDir = False\<rparr>]) \<and>
   recorded_origin repo_zones ((world_at git_ok working_copy)\<lparr>unreadable := (\<lambda>p. p = ''/zones'')\<rparr>)
     = Some ''host/org/zones.git'' \<and>
   Prepare repo_zones ((world_at git_ok working_copy)\<lparr>unreadable := (\<lambda>p. p = ''/zones'')\<rparr>) =
     (None, repo_zones, (world_at git_ok working_copy)\<lparr>unreadable := (\<lambda>p. p = ''/zones'')\<rparr>) \<and>
   pulled repo_zones = False \<and>
   take 1 (new_issued ((world_at git_ok working_copy)\<lparr>unreadable := (\<lambda>p. p = ''/zones'')\<rparr>)
      (snd (snd (Pull repo_zones
         ((world_at git_ok working_copy)\<lparr>unreadable := (\<lambda>p. p = ''/zones'')\<rparr>)))))
     = [git_invocation [''clone'', ''-b'', ''main'', ''host/org/zones'', ''/zones''] []]"
  by (simp add: Prepare_def ReadDir_def MkdirAll_def gitfile_working_copy_def working_copy_def
      recorded_origin_def origin_invocation_def TrimSuffix_examples run_defs new_issued_def)
    (simp add: Second_def)

text \<open>
  C7, as amended.  When the local path is a non-empty directory that can be listed, and
  either it holds no directory \<open>.git\<close>, or it holds one and the origin its working copy
  records differs from the configured URL (a trailing \<open>.git\<close> stripped from both), or it
  holds one, the query for the origin fails and the configured URL does not strip to the
  empty string, then \<open>Prepare\<close> fails with a ConfigurationError; the repository record is
  returned as it was, the directory tree is as it was, and the only process it can have run
  is the query for the origin.
\<close>

theorem Prepare_rejects_foreign_content:
  assumes "files w (Path r) = Some (Directory entries)"
    and "\<not> unreadable w (Path r)"
    and "entries \<noteq> []"
    and "(\<not> (\<exists>f\<in>set entries. IsDir f \<and> Name f = ''.git'')) \<or>
         (\<exists>u. recorded_origin r w = Some u \<and> TrimSuffix u ''.git'' \<noteq> TrimSuffix (URL r) ''.git'') \<or>
         (recorded_origin r w = None \<and> TrimSuffix (URL r) ''.git'' \<noteq> [])"
  shows "\<exists>e w'. Prepare r w = (Some e, r, w') \<and> ConfigurationError e \<and>
           files w' = files w \<and> creatable w' = creatable w \<and>
           (new_issued w w' = [] \<or> new_issued w w' = [origin_invocation r])"
proof (cases "\<exists>f\<in>set entries. IsDir f \<and> Name f = ''.git''")
  case False
  then have "\<not> isGit_loop entries" by (simp only: isGit_loop_iff not_False_eq_True)
  with assms(1-3) have "Prepare r w = (Some (DirectoryNotEmpty (Path r)), r, w)"
    by (simp add: Prepare_def ReadDir_def)
  then show ?thesis by (simp add: new_issued_def)
next
  case True
  then have git: "isGit_loop entries" by (simp only: isGit_loop_iff)
  have empty: "TrimSuffix [] ''.git'' = []" by (simp add: TrimSuffix_def HasSuffix_def)
  define differs where "differs = (\<lambda>u. TrimSuffix u ''.git'' \<noteq> TrimSuffix (URL r) ''.git'')"
  define nonempty where "nonempty = (TrimSuffix (URL r) ''.git'' \<noteq> [])"
  from True assms(4) have "(\<exists>u. recorded_origin r w = Some u \<and> differs u) \<or>
      (recorded_origin r w = None \<and> nonempty)"
    unfolding differs_def nonempty_def by simp
  then show ?thesis
  proof (elim disjE exE conjE)
    fix u
    assume "recorded_origin r w = Some u" "differs u"
    with git assms(1-3) have
      "Prepare r w = (Some (AnotherGitRepo u (Path r)), r, after w (origin_invocation r))"
      by (simp add: Prepare_def ReadDir_def originURL_eq differs_def)
    then show ?thesis by (simp add: new_issued_def)
  next
    assume "recorded_origin r w = None" "nonempty"
    with git assms(1-3) empty have
      "Prepare r w = (Some (AnotherGitRepo [] (Path r)), r, after w (origin_invocation r))"
      by (auto simp: Prepare_def ReadDir_def originURL_eq nonempty_def)
    then show ?thesis by (simp add: new_issued_def)
  qed
qed

theorem Prepare_rejects_witness:
  "files (world_at git_ok plain_directory) (Path repo_zones) = Some (Directory [\<lparr>Name = ''notes.txt'', IsDir = False\<rparr>]) \<and>
   \<not> unreadable (world_at git_ok plain_directory) (Path repo_zones) \<and>
   \<not> (\<exists>f\<in>set [\<lparr>Name = ''notes.txt'', IsDir = False\<rparr>]. IsDir f \<and> Name f = ''.git'') \<and>
   Prepare repo_zones (world_at git_ok plain_directory) = (Some (DirectoryNotEmpty ''/zones''), repo_zones, world_at git_ok plain_directory) \<and>
   (\<exists>e w'. Prepare repo_zones (world_at git_ok plain_directory) = (Some e, repo_zones, w') \<and> ConfigurationError e \<and>
      files w' = files (world_at git_ok plain_directory) \<and> creatable w' = creatable (world_at git_ok plain_directory) \<and>
      (new_issued (world_at git_ok plain_directory) w' = [] \<or> new_issued (world_at git_ok plain_directory) w' = [origin_invocation repo_zones])) \<and>
   files (world_at git_other_origin working_copy) (Path repo_zones) = Some (Directory [\<lparr>Name = ''.git'', IsDir = True\<rparr>, \<lparr>Name = ''db.example.org'', IsDir = False\<rparr>]) \<and>
   \<not> unreadable (world_at git_other_origin working_copy) (Path repo_zones) \<and>
   recorded_origin repo_zones (world_at git_other_origin working_copy) = Some ''host/org/other.git'' \<and>
   TrimSuffix ''host/org/other.git'' ''.git'' \<noteq> TrimSuffix (URL repo_zones) ''.git'' \<and>
   (\<exists>e w'. Prepare repo_zones (world_at git_other_origin working_copy) = (Some e, repo_zones, w') \<and> ConfigurationError e \<and>
      files w' = files (world_at git_other_origin working_copy) \<and> creatable w' = creatable (world_at git_other_origin working_copy) \<and>
      (new_issued (world_at git_other_origin working_copy) w' = [] \<or> new_issued (world_at git_other_origin working_copy) w' = [origin_invocation repo_zones])) \<and>
   files (world_at git_missing working_copy) (Path repo_zones) = Some (Directory [\<lparr>Name = ''.git'', IsDir = True\<rparr>, \<lparr>Name = ''db.example.org'', IsDir = False\<rparr>]) \<and>
   \<not> unreadable (world_at git_missing working_copy) (Path repo_zones) \<and>
   recorded_origin repo_zones (world_at git_missing working_copy) = None \<and>
   TrimSuffix (URL repo_zones) ''.git'' \<noteq> [] \<and>
   (\<exists>e w'. Prepare repo_zones (world_at git_missing working_copy) = (Some e, repo_zones, w') \<and> ConfigurationError e \<and>
      files w' = files (world_at git_missing working_copy) \<and> creatable w' = creatable (world_at git_missing working_copy) \<and>
      (new_issued (world_at git_missing working_copy) w' = [] \<or> new_issued (world_at git_missing working_copy) w' = [origin_invocation repo_zones]))"
proof -
  let ?Wa = "world_at git_ok plain_directory"
  let ?Wb = "world_at git_other_origin working_copy"
  let ?Wc = "world_at git_missing working_copy"
  have a1: "files ?Wa (Path repo_zones) = Some (Directory [\<lparr>Name = ''notes.txt'', IsDir = False\<rparr>])"
    by (simp add: plain_directory_def)
  have a0: "\<not> unreadable ?Wa (Path repo_zones)" by simp
  have a2: "[\<lparr>Name = ''notes.txt'', IsDir = False\<rparr>] \<noteq> []" by simp
  have a3: "\<not> (\<exists>f\<in>set [\<lparr>Name = ''notes.txt'', IsDir = False\<rparr>]. IsDir f \<and> Name f = ''.git'')"
    by simp
  note ca = Prepare_rejects_foreign_content [OF a1 a0 a2 disjI1 [OF a3]]
  have ca': "Prepare repo_zones ?Wa = (Some (DirectoryNotEmpty ''/zones''), repo_zones, ?Wa)"
    by (simp add: Prepare_def ReadDir_def plain_directory_def)
  have b1: "files ?Wb (Path repo_zones) = Some (Directory [\<lparr>Name = ''.git'', IsDir = True\<rparr>, \<lparr>Name = ''db.example.org'', IsDir = False\<rparr>])"
    by (simp add: working_copy_def)
  have b0: "\<not> unreadable ?Wb (Path repo_zones)" by simp
  have b2: "[\<lparr>Name = ''.git'', IsDir = True\<rparr>, \<lparr>Name = ''db.example.org'', IsDir = False\<rparr>] \<noteq> []" by simp
  have b3: "recorded_origin repo_zones ?Wb = Some ''host/org/other.git''"
    by (rule recorded_origin_other)
  have b4: "TrimSuffix ''host/org/other.git'' ''.git'' \<noteq> TrimSuffix (URL repo_zones) ''.git''"
    by (simp add: TrimSuffix_examples)
  have b5: "\<exists>u. recorded_origin repo_zones ?Wb = Some u \<and>
      TrimSuffix u ''.git'' \<noteq> TrimSuffix (URL repo_zones) ''.git''"
    using b3 b4 by (intro exI conjI)
  note cb = Prepare_rejects_foreign_content [OF b1 b0 b2 disjI2 [OF disjI1 [OF b5]]]
  have c1: "files ?Wc (Path repo_zones) = Some (Directory [\<lparr>Name = ''.git'', IsDir = True\<rparr>, \<lparr>Name = ''db.example.org'', IsDir = False\<rparr>])"
    by (simp add: working_copy_def)
  have c0: "\<not> unreadable ?Wc (Path repo_zones)" by simp
  have c3: "recorded_origin repo_zones ?Wc = None" by (rule recorded_origin_missing)
  have c4: "TrimSuffix (URL repo_zones) ''.git'' \<noteq> []"
    by (simp add: TrimSuffix_examples)
  note cc = Prepare_rejects_foreign_content [OF c1 c0 b2 disjI2 [OF disjI2 [OF conjI [OF c3 c4]]]]
  show ?thesis
    by (intro conjI a1 a0 a3 ca ca' b1 b0 b3 b4 cb c1 c0 c3 c4 cc)
qed

text \<open>
  The claim as written, for every non-empty path, fails where the directory cannot be listed:
  \<open>Prepare\<close> sends every error of \<open>ioutil.ReadDir\<close> to \<open>os.MkdirAll\<close>, which returns nil on a
  directory that exists, so \<open>Prepare\<close> returns nil on a non-empty directory that is no
  working copy.
\<close>

theorem Prepare_accepts_unreadable_directory:
  "files ((world_at git_ok plain_directory)\<lparr>unreadable := (\<lambda>p. p = ''/zones'')\<rparr>) (Path repo_zones) =
     Some (Directory [\<lparr>Name = ''notes.txt'', IsDir = False\<rparr>]) \<and>
   \<not> (\<exists>f\<in>set [\<lparr>Name = ''notes.txt'', IsDir = False\<rparr>]. IsDir f \<and> Name f = ''.git'') \<and>
   Prepare repo_zones ((world_at git_ok plain_directory)\<lparr>unreadable := (\<lambda>p. p = ''/zones'')\<rparr>) =
     (None, repo_zones, (world_at git_ok plain_directory)\<lparr>unreadable := (\<lambda>p. p = ''/zones'')\<rparr>)"
  by (simp add: Prepare_def ReadDir_def MkdirAll_def plain_directory_def)

section \<open>Convergence in tag mode\<close>

text \<open>
  C8, as amended.  First, whenever the tag that \<open>fetchLatestTag\<close> resolves is the one
  recorded as checked out, \<open>checkoutLatestTag\<close> returns nil, leaves the repository as it
  was and issues no checkout.  The other two parts are about two calls of \<open>Pull\<close> in tag
  mode that both get past the debounce test, the second at least five seconds after the
  first returned, while the latest tag of the remote stays \<open>T\<close>.  Second, when every process
  the two calls run exits with status 0, both return nil, the first issues one checkout
  when the tag recorded before it differs from \<open>T\<close> and none when \<open>T\<close> is already checked
  out, and the second issues none and changes nothing.  Third, whenever both calls return nil
  and no checkout they run fails, whatever else failed and was retried, the two calls issue
  one checkout in total when the tag recorded before the first differs from \<open>T\<close> and none
  otherwise; \<open>T\<close> is recorded after the second call, and on an initialized repository
  already after the first, and the second call then issues no checkout and changes nothing.
\<close>

theorem tag_mode_converges:
  "(fetchLatestTag r w = ((tag, None), w1) \<and> tag \<noteq> [] \<and> tag = latestTag r \<longrightarrow>
      checkoutLatestTag r w = (None, r, w1) \<and> checkouts w w1 = 0) \<and>
   (Branch r = latestTag_const \<and> T \<noteq> [] \<and> \<not> Since v (lastPull r) < 5 * Second \<and>
    Pull r v = (e1, r1, v1) \<and> 5 * Second \<le> d \<and>
    Pull r1 (v1\<lparr>clock := clock v1 + d\<rparr>) = (e2, r2, v2) \<and>
    describe_prints T v v1 \<and> describe_prints T (v1\<lparr>clock := clock v1 + d\<rparr>) v2 \<and>
    all_succeed v v1 \<and> all_succeed (v1\<lparr>clock := clock v1 + d\<rparr>) v2 \<longrightarrow>
      e1 = None \<and> e2 = None \<and> r2 = r1 \<and> latestTag r1 = T \<and>
      checkouts v v1 = (if latestTag r = T then 0 else 1) \<and>
      checkouts (v1\<lparr>clock := clock v1 + d\<rparr>) v2 = 0) \<and>
   (Branch r = latestTag_const \<and> T \<noteq> [] \<and> \<not> Since v (lastPull r) < 5 * Second \<and>
    Pull r v = (None, r1, v1) \<and> 5 * Second \<le> d \<and>
    Pull r1 (v1\<lparr>clock := clock v1 + d\<rparr>) = (None, r2, v2) \<and>
    describe_prints T v v1 \<and> describe_prints T (v1\<lparr>clock := clock v1 + d\<rparr>) v2 \<and>
    checkouts_succeed v v1 \<and> checkouts_succeed (v1\<lparr>clock := clock v1 + d\<rparr>) v2 \<longrightarrow>
      checkouts v v1 + checkouts (v1\<lparr>clock := clock v1 + d\<rparr>) v2 =
        (if latestTag r = T then 0 else 1) \<and>
      latestTag r2 = T \<and>
      (latestTag r1 = T \<longrightarrow> checkouts (v1\<lparr>clock := clock v1 + d\<rparr>) v2 = 0 \<and> r2 = r1) \<and>
      (pulled r \<longrightarrow> latestTag r1 = T))"
proof (intro conjI)
  show "fetchLatestTag r w = ((tag, None), w1) \<and> tag \<noteq> [] \<and> tag = latestTag r \<longrightarrow>
      checkoutLatestTag r w = (None, r, w1) \<and> checkouts w w1 = 0"
  proof (intro impI conjI)
    assume a: "fetchLatestTag r w = ((tag, None), w1) \<and> tag \<noteq> [] \<and> tag = latestTag r"
    then have f: "fetchLatestTag r w = ((latestTag r, None), w1)" and ne: "latestTag r \<noteq> []"
      by auto
    from f ne show "checkoutLatestTag r w = (None, r, w1)"
      by (simp add: checkoutLatestTag_def)
    from f show "checkouts w w1 = 0"
      by (auto simp: fetchLatestTag_eq gitCmd_eq runCmdOutput_eq checkouts_def new_issued_def
          split: option.splits)
  qed
next
  let ?v = "v1\<lparr>clock := clock v1 + d\<rparr>"
  show "Branch r = latestTag_const \<and> T \<noteq> [] \<and> \<not> Since v (lastPull r) < 5 * Second \<and>
    Pull r v = (e1, r1, v1) \<and> 5 * Second \<le> d \<and> Pull r1 ?v = (e2, r2, v2) \<and>
    describe_prints T v v1 \<and> describe_prints T ?v v2 \<and>
    all_succeed v v1 \<and> all_succeed ?v v2 \<longrightarrow>
      e1 = None \<and> e2 = None \<and> r2 = r1 \<and> latestTag r1 = T \<and>
      checkouts v v1 = (if latestTag r = T then 0 else 1) \<and> checkouts ?v v2 = 0"
  proof
    assume a: "Branch r = latestTag_const \<and> T \<noteq> [] \<and> \<not> Since v (lastPull r) < 5 * Second \<and>
      Pull r v = (e1, r1, v1) \<and> 5 * Second \<le> d \<and> Pull r1 ?v = (e2, r2, v2) \<and>
      describe_prints T v v1 \<and> describe_prints T ?v v2 \<and>
      all_succeed v v1 \<and> all_succeed ?v v2"
    then have tag: "Branch r = latestTag_const" and T: "T \<noteq> []"
      and nd: "\<not> Since v (lastPull r) < 5 * Second" and P1: "Pull r v = (e1, r1, v1)"
      and d: "5 * Second \<le> d" and P2: "Pull r1 ?v = (e2, r2, v2)"
      and dp: "describe_prints T v v1" "describe_prints T ?v v2"
      and ok: "all_succeed v v1" "all_succeed ?v v2"
      by blast+
    from Pull_all_succeed [OF tag T nd P1 dp(1) ok(1)] have e1: "e1 = None" "latestTag r1 = T"
      by simp_all
    from P1 e1 nd have L1: "Pull_loop numRetries None r v = (None, r1, v1)"
      by (simp add: Pull_full)
    from Pull_loop_stable [OF L1 tag T dp(1) all_succeed_checkouts [OF ok(1)]]
      not_debounced_past [OF nd] tag
    have f1: "Branch r1 = latestTag_const" "lastPull r1 \<le> clock v1"
      by (auto simp: numRetries_def)
    from Pull_all_succeed [OF f1(1) T not_debounced_later [OF f1(2) d] P2 dp(2) ok(2)]
    have e2: "e2 = None" by simp
    from two_calls_stable [OF tag T nd _ d _ dp all_succeed_checkouts [OF ok(1)]
        all_succeed_checkouts [OF ok(2)], of r1 r2] P1 P2 e1 e2
    show "e1 = None \<and> e2 = None \<and> r2 = r1 \<and> latestTag r1 = T \<and>
      checkouts v v1 = (if latestTag r = T then 0 else 1) \<and> checkouts ?v v2 = 0"
      by auto
  qed
next
  let ?v = "v1\<lparr>clock := clock v1 + d\<rparr>"
  show "Branch r = latestTag_const \<and> T \<noteq> [] \<and> \<not> Since v (lastPull r) < 5 * Second \<and>
    Pull r v = (None, r1, v1) \<and> 5 * Second \<le> d \<and> Pull r1 ?v = (None, r2, v2) \<and>
    describe_prints T v v1 \<and> describe_prints T ?v v2 \<and>
    checkouts_succeed v v1 \<and> checkouts_succeed ?v v2 \<longrightarrow>
      checkouts v v1 + checkouts ?v v2 = (if latestTag r = T then 0 else 1) \<and>
      latestTag r2 = T \<and>
      (latestTag r1 = T \<longrightarrow> checkouts ?v v2 = 0 \<and> r2 = r1) \<and>
      (pulled r \<longrightarrow> latestTag r1 = T)"
    using two_calls_stable [of r T v r1 v1 d r2 v2] by blast
qed

theorem tag_mode_converges_witness:
  "fetchLatestTag (repo_tags\<lparr>pulled := True, latestTag := ''v1.0''\<rparr>) (world_at git_ok no_files) = ((''v1.0'', None), after (after (world_at git_ok no_files) (fetch_invocation repo_tags)) (describe_invocation repo_tags)) \<and>
   ''v1.0'' = latestTag (repo_tags\<lparr>pulled := True, latestTag := ''v1.0''\<rparr>) \<and>
   checkoutLatestTag (repo_tags\<lparr>pulled := True, latestTag := ''v1.0''\<rparr>) (world_at git_ok no_files) = (None, repo_tags\<lparr>pulled := True, latestTag := ''v1.0''\<rparr>, after (after (world_at git_ok no_files) (fetch_invocation repo_tags)) (describe_invocation repo_tags)) \<and>
   checkouts (world_at git_ok no_files) (after (after (world_at git_ok no_files) (fetch_invocation repo_tags)) (describe_invocation repo_tags)) = 0 \<and>
   Branch repo_tags = latestTag_const \<and>
   \<not> Since (world_at git_ok no_files) (lastPull repo_tags) < 5 * Second \<and>
   Pull repo_tags (world_at git_ok no_files) = (None, repo_tags\<lparr>pulled := True, lastPull := 63900000000 * Second + 1000, lastCommit := ''4f2a'', latestTag := ''v1.0''\<rparr>, after (after (after (after (after (after (world_at git_ok no_files) (git_invocation [''clone'', ''host/org/zones'', ''/zones''] [])) (git_invocation [''--no-pager'', ''log'', ''-n'', ''1'', ''--pretty=format:%H''] ''/zones'')) (fetch_invocation repo_tags)) (describe_invocation repo_tags)) (git_invocation [''checkout'', ''tags/v1.0''] ''/zones'')) (git_invocation [''--no-pager'', ''log'', ''-n'', ''1'', ''--pretty=format:%H''] ''/zones'')) \<and>
   Pull (repo_tags\<lparr>pulled := True, lastPull := 63900000000 * Second + 1000, lastCommit := ''4f2a'', latestTag := ''v1.0''\<rparr>) ((after (after (after (after (after (after (world_at git_ok no_files) (git_invocation [''clone'', ''host/org/zones'', ''/zones''] [])) (git_invocation [''--no-pager'', ''log'', ''-n'', ''1'', ''--pretty=format:%H''] ''/zones'')) (fetch_invocation repo_tags)) (describe_invocation repo_tags)) (git_invocation [''checkout'', ''tags/v1.0''] ''/zones'')) (git_invocation [''--no-pager'', ''log'', ''-n'', ''1'', ''--pretty=format:%H''] ''/zones''))\<lparr>clock := clock (after (after (after (after (after (after (world_at git_ok no_files) (git_invocation [''clone'', ''host/org/zones'', ''/zones''] [])) (git_invocation [''--no-pager'', ''log'', ''-n'', ''1'', ''--pretty=format:%H''] ''/zones'')) (fetch_invocation repo_tags)) (describe_invocation repo_tags)) (git_invocation [''checkout'', ''tags/v1.0''] ''/zones'')) (git_invocation [''--no-pager'', ''log'', ''-n'', ''1'', ''--pretty=format:%H''] ''/zones'')) + 10 * Second\<rparr>) = (None, repo_tags\<lparr>pulled := True, lastPull := 63900000000 * Second + 1000, lastCommit := ''4f2a'', latestTag := ''v1.0''\<rparr>, after (after ((after (after (after (after (after (after (world_at git_ok no_files) (git_invocation [''clone'', ''host/org/zones'', ''/zones''] [])) (git_invocation [''--no-pager'', ''log'', ''-n'', ''1'', ''--pretty=format:%H''] ''/zones'')) (fetch_invocation repo_tags)) (describe_invocation repo_tags)) (git_invocation [''checkout'', ''tags/v1.0''] ''/zones'')) (git_invocation [''--no-pager'', ''log'', ''-n'', ''1'', ''--pretty=format:%H''] ''/zones''))\<lparr>clock := clock (after (after (after (after (after (after (world_at git_ok no_files) (git_invocation [''clone'', ''host/org/zones'', ''/zones''] [])) (git_invocation [''--no-pager'', ''log'', ''-n'', ''1'', ''--pretty=format:%H''] ''/zones'')) (fetch_invocation repo_tags)) (describe_invocation repo_tags)) (git_invocation [''checkout'', ''tags/v1.0''] ''/zones'')) (git_invocation [''--no-pager'', ''log'', ''-n'', ''1'', ''--pretty=format:%H''] ''/zones'')) + 10 * Second\<rparr>) (fetch_invocation repo_tags)) (describe_invocation repo_tags)) \<and>
   describe_prints ''v1.0'' (world_at git_ok no_files) (after (after (after (after (after (after (world_at git_ok no_files) (git_invocation [''clone'', ''host/org/zones'', ''/zones''] [])) (git_invocation [''--no-pager'', ''log'', ''-n'', ''1'', ''--pretty=format:%H''] ''/zones'')) (fetch_invocation repo_tags)) (describe_invocation repo_tags)) (git_invocation [''checkout'', ''tags/v1.0''] ''/zones'')) (git_invocation [''--no-pager'', ''log'', ''-n'', ''1'', ''--pretty=format:%H''] ''/zones'')) \<and>
   describe_prints ''v1.0'' ((after (after (after (after (after (after (world_at git_ok no_files) (git_invocation [''clone'', ''host/org/zones'', ''/zones''] [])) (git_invocation [''--no-pager'', ''log'', ''-n'', ''1'', ''--pretty=format:%H''] ''/zones'')) (fetch_invocation repo_tags)) (describe_invocation repo_tags)) (git_invocation [''checkout'', ''tags/v1.0''] ''/zones'')) (git_invocation [''--no-pager'', ''log'', ''-n'', ''1'', ''--pretty=format:%H''] ''/zones''))\<lparr>clock := clock (after (after (after (after (after (after (world_at git_ok no_files) (git_invocation [''clone'', ''host/org/zones'', ''/zones''] [])) (git_invocation [''--no-pager'', ''log'', ''-n'', ''1'', ''--pretty=format:%H''] ''/zones'')) (fetch_invocation repo_tags)) (describe_invocation repo_tags)) (git_invocation [''checkout'', ''tags/v1.0''] ''/zones'')) (git_invocation [''--no-pager'', ''log'', ''-n'', ''1'', ''--pretty=format:%H''] ''/zones'')) + 10 * Second\<rparr>) (after (after ((after (after (after (after (after (after (world_at git_ok no_files) (git_invocation [''clone'', ''host/org/zones'', ''/zones''] [])) (git_invocation [''--no-pager'', ''log'', ''-n'', ''1'', ''--pretty=format:%H''] ''/zones'')) (fetch_invocation repo_tags)) (describe_invocation repo_tags)) (git_invocation [''checkout'', ''tags/v1.0''] ''/zones'')) (git_invocation [''--no-pager'', ''log'', ''-n'', ''1'', ''--pretty=format:%H''] ''/zones''))\<lparr>clock := clock (after (after (after (after (after (after (world_at git_ok no_files) (git_invocation [''clone'', ''host/org/zones'', ''/zones''] [])) (git_invocation [''--no-pager'', ''log'', ''-n'', ''1'', ''--pretty=format:%H''] ''/zones'')) (fetch_invocation repo_tags)) (describe_invocation repo_tags)) (git_invocation [''checkout'', ''tags/v1.0''] ''/zones'')) (git_invocation [''--no-pager'', ''log'', ''-n'', ''1'', ''--pretty=format:%H''] ''/zones'')) + 10 * Second\<rparr>) (fetch_invocation repo_tags)) (describe_invocation repo_tags)) \<and>
   all_succeed (world_at git_ok no_files) (after (after (after (after (after (after (world_at git_ok no_files) (git_invocation [''clone'', ''host/org/zones'', ''/zones''] [])) (git_invocation [''--no-pager'', ''log'', ''-n'', ''1'', ''--pretty=format:%H''] ''/zones'')) (fetch_invocation repo_tags)) (describe_invocation repo_tags)) (git_invocation [''checkout'', ''tags/v1.0''] ''/zones'')) (git_invocation [''--no-pager'', ''log'', ''-n'', ''1'', ''--pretty=format:%H''] ''/zones'')) \<and>
   all_succeed ((after (after (after (after (after (after (world_at git_ok no_files) (git_invocation [''clone'', ''host/org/zones'', ''/zones''] [])) (git_invocation [''--no-pager'', ''log'', ''-n'', ''1'', ''--pretty=format:%H''] ''/zones'')) (fetch_invocation repo_tags)) (describe_invocation repo_tags)) (git_invocation [''checkout'', ''tags/v1.0''] ''/zones'')) (git_invocation [''--no-pager'', ''log'', ''-n'', ''1'', ''--pretty=format:%H''] ''/zones''))\<lparr>clock := clock (after (after (after (after (after (after (world_at git_ok no_files) (git_invocation [''clone'', ''host/org/zones'', ''/zones''] [])) (git_invocation [''--no-pager'', ''log'', ''-n'', ''1'', ''--pretty=format:%H''] ''/zones'')) (fetch_invocation repo_tags)) (describe_invocation repo_tags)) (git_invocation [''checkout'', ''tags/v1.0''] ''/zones'')) (git_invocation [''--no-pager'', ''log'', ''-n'', ''1'', ''--pretty=format:%H''] ''/zones'')) + 10 * Second\<rparr>) (after (after ((after (after (after (after (after (after (world_at git_ok no_files) (git_invocation [''clone'', ''host/org/zones'', ''/zones''] [])) (git_invocation [''--no-pager'', ''log'', ''-n'', ''1'', ''--pretty=format:%H''] ''/zones'')) (fetch_invocation repo_tags)) (describe_invocation repo_tags)) (git_invocation [''checkout'', ''tags/v1.0''] ''/zones'')) (git_invocation [''--no-pager'', ''log'', ''-n'', ''1'', ''--pretty=format:%H''] ''/zones''))\<lparr>clock := clock (after (after (after (after (after (after (world_at git_ok no_files) (git_invocation [''clone'', ''host/org/zones'', ''/zones''] [])) (git_invocation [''--no-pager'', ''log'', ''-n'', ''1'', ''--pretty=format:%H''] ''/zones'')) (fetch_invocation repo_tags)) (describe_invocation repo_tags)) (git_invocation [''checkout'', ''tags/v1.0''] ''/zones'')) (git_invocation [''--no-pager'', ''log'', ''-n'', ''1'', ''--pretty=format:%H''] ''/zones'')) + 10 * Second\<rparr>) (fetch_invocation repo_tags)) (describe_invocation repo_tags)) \<and>
   checkouts (world_at git_ok no_files) (after (after (after (after (after (after (world_at git_ok no_files) (git_invocation [''clone'', ''host/org/zones'', ''/zones''] [])) (git_invocation [''--no-pager'', ''log'', ''-n'', ''1'', ''--pretty=format:%H''] ''/zones'')) (fetch_invocation repo_tags)) (describe_invocation repo_tags)) (git_invocation [''checkout'', ''tags/v1.0''] ''/zones'')) (git_invocation [''--no-pager'', ''log'', ''-n'', ''1'', ''--pretty=format:%H''] ''/zones'')) = 1 \<and>
   checkouts ((after (after (after (after (after (after (world_at git_ok no_files) (git_invocation [''clone'', ''host/org/zones'', ''/zones''] [])) (git_invocation [''--no-pager'', ''log'', ''-n'', ''1'', ''--pretty=format:%H''] ''/zones'')) (fetch_invocation repo_tags)) (describe_invocation repo_tags)) (git_invocation [''checkout'', ''tags/v1.0''] ''/zones'')) (git_invocation [''--no-pager'', ''log'', ''-n'', ''1'', ''--pretty=format:%H''] ''/zones''))\<lparr>clock := clock (after (after (after (after (after (after (world_at git_ok no_files) (git_invocation [''clone'', ''host/org/zones'', ''/zones''] [])) (git_invocation [''--no-pager'', ''log'', ''-n'', ''1'', ''--pretty=format:%H''] ''/zones'')) (fetch_invocation repo_tags)) (describe_invocation repo_tags)) (git_invocation [''checkout'', ''tags/v1.0''] ''/zones'')) (git_invocation [''--no-pager'', ''log'', ''-n'', ''1'', ''--pretty=format:%H''] ''/zones'')) + 10 * Second\<rparr>) (after (after ((after (after (after (after (after (after (world_at git_ok no_files) (git_invocation [''clone'', ''host/org/zones'', ''/zones''] [])) (git_invocation [''--no-pager'', ''log'', ''-n'', ''1'', ''--pretty=format:%H''] ''/zones'')) (fetch_invocation repo_tags)) (describe_invocation repo_tags)) (git_invocation [''checkout'', ''tags/v1.0''] ''/zones'')) (git_invocation [''--no-pager'', ''log'', ''-n'', ''1'', ''--pretty=format:%H''] ''/zones''))\<lparr>clock := clock (after (after (after (after (after (after (world_at git_ok no_files) (git_invocation [''clone'', ''host/org/zones'', ''/zones''] [])) (git_invocation [''--no-pager'', ''log'', ''-n'', ''1'', ''--pretty=format:%H''] ''/zones'')) (fetch_invocation repo_tags)) (describe_invocation repo_tags)) (git_invocation [''checkout'', ''tags/v1.0''] ''/zones'')) (git_invocation [''--no-pager'', ''log'', ''-n'', ''1'', ''--pretty=format:%H''] ''/zones'')) + 10 * Second\<rparr>) (fetch_invocation repo_tags)) (describe_invocation repo_tags)) = 0 \<and>
   \<not> Since (world_at git_fetch_fails_once no_files) (lastPull (repo_tags\<lparr>pulled := True\<rparr>)) < 5 * Second \<and>
   Pull (repo_tags\<lparr>pulled := True\<rparr>) (world_at git_fetch_fails_once no_files) = (None, repo_tags\<lparr>pulled := True, lastCommit := ''4f2a'', latestTag := ''v1.0''\<rparr>, after (after (after (after (after (world_at git_fetch_fails_once no_files) (fetch_invocation repo_tags)) (fetch_invocation repo_tags)) (describe_invocation repo_tags)) (git_invocation [''checkout'', ''tags/v1.0''] ''/zones'')) (git_invocation [''--no-pager'', ''log'', ''-n'', ''1'', ''--pretty=format:%H''] ''/zones'')) \<and>
   Pull (repo_tags\<lparr>pulled := True, lastCommit := ''4f2a'', latestTag := ''v1.0''\<rparr>) ((after (after (after (after (after (world_at git_fetch_fails_once no_files) (fetch_invocation repo_tags)) (fetch_invocation repo_tags)) (describe_invocation repo_tags)) (git_invocation [''checkout'', ''tags/v1.0''] ''/zones'')) (git_invocation [''--no-pager'', ''log'', ''-n'', ''1'', ''--pretty=format:%H''] ''/zones''))\<lparr>clock := clock (after (after (after (after (after (world_at git_fetch_fails_once no_files) (fetch_invocation repo_tags)) (fetch_invocation repo_tags)) (describe_invocation repo_tags)) (git_invocation [''checkout'', ''tags/v1.0''] ''/zones'')) (git_invocation [''--no-pager'', ''log'', ''-n'', ''1'', ''--pretty=format:%H''] ''/zones'')) + 10 * Second\<rparr>) = (None, repo_tags\<lparr>pulled := True, lastCommit := ''4f2a'', latestTag := ''v1.0''\<rparr>, after (after ((after (after (after (after (after (world_at git_fetch_fails_once no_files) (fetch_invocation repo_tags)) (fetch_invocation repo_tags)) (describe_invocation repo_tags)) (git_invocation [''checkout'', ''tags/v1.0''] ''/zones'')) (git_invocation [''--no-pager'', ''log'', ''-n'', ''1'', ''--pretty=format:%H''] ''/zones''))\<lparr>clock := clock (after (after (after (after (after (world_at git_fetch_fails_once no_files) (fetch_invocation repo_tags)) (fetch_invocation repo_tags)) (describe_invocation repo_tags)) (git_invocation [''checkout'', ''tags/v1.0''] ''/zones'')) (git_invocation [''--no-pager'', ''log'', ''-n'', ''1'', ''--pretty=format:%H''] ''/zones'')) + 10 * Second\<rparr>) (fetch_invocation repo_tags)) (describe_invocation repo_tags)) \<and>
   describe_prints ''v1.0'' (world_at git_fetch_fails_once no_files) (after (after (after (after (after (world_at git_fetch_fails_once no_files) (fetch_invocation repo_tags)) (fetch_invocation repo_tags)) (describe_invocation repo_tags)) (git_invocation [''checkout'', ''tags/v1.0''] ''/zones'')) (git_invocation [''--no-pager'', ''log'', ''-n'', ''1'', ''--pretty=format:%H''] ''/zones'')) \<and>
   describe_prints ''v1.0'' ((after (after (after (after (after (world_at git_fetch_fails_once no_files) (fetch_invocation repo_tags)) (fetch_invocation repo_tags)) (describe_invocation repo_tags)) (git_invocation [''checkout'', ''tags/v1.0''] ''/zones'')) (git_invocation [''--no-pager'', ''log'', ''-n'', ''1'', ''--pretty=format:%H''] ''/zones''))\<lparr>clock := clock (after (after (after (after (after (world_at git_fetch_fails_once no_files) (fetch_invocation repo_tags)) (fetch_invocation repo_tags)) (describe_invocation repo_tags)) (git_invocation [''checkout'', ''tags/v1.0''] ''/zones'')) (git_invocation [''--no-pager'', ''log'', ''-n'', ''1'', ''--pretty=format:%H''] ''/zones'')) + 10 * Second\<rparr>) (after (after ((after (after (after (after (after (world_at git_fetch_fails_once no_files) (fetch_invocation repo_tags)) (fetch_invocation repo_tags)) (describe_invocation repo_tags)) (git_invocation [''checkout'', ''tags/v1.0''] ''/zones'')) (git_invocation [''--no-pager'', ''log'', ''-n'', ''1'', ''--pretty=format:%H''] ''/zones''))\<lparr>clock := clock (after (after (after (after (after (world_at git_fetch_fails_once no_files) (fetch_invocation repo_tags)) (fetch_invocation repo_tags)) (describe_invocation repo_tags)) (git_invocation [''checkout'', ''tags/v1.0''] ''/zones'')) (git_invocation [''--no-pager'', ''log'', ''-n'', ''1'', ''--pretty=format:%H''] ''/zones'')) + 10 * Second\<rparr>) (fetch_invocation repo_tags)) (describe_invocation repo_tags)) \<and>
   checkouts_succeed (world_at git_fetch_fails_once no_files) (after (after (after (after (after (world_at git_fetch_fails_once no_files) (fetch_invocation repo_tags)) (fetch_invocation repo_tags)) (describe_invocation repo_tags)) (git_invocation [''checkout'', ''tags/v1.0''] ''/zones'')) (git_invocation [''--no-pager'', ''log'', ''-n'', ''1'', ''--pretty=format:%H''] ''/zones'')) \<and>
   checkouts_succeed ((after (after (after (after (after (world_at git_fetch_fails_once no_files) (fetch_invocation repo_tags)) (fetch_invocation repo_tags)) (describe_invocation repo_tags)) (git_invocation [''checkout'', ''tags/v1.0''] ''/zones'')) (git_invocation [''--no-pager'', ''log'', ''-n'', ''1'', ''--pretty=format:%H''] ''/zones''))\<lparr>clock := clock (after (after (after (after (after (world_at git_fetch_fails_once no_files) (fetch_invocation repo_tags)) (fetch_invocation repo_tags)) (describe_invocation repo_tags)) (git_invocation [''checkout'', ''tags/v1.0''] ''/zones'')) (git_invocation [''--no-pager'', ''log'', ''-n'', ''1'', ''--pretty=format:%H''] ''/zones'')) + 10 * Second\<rparr>) (after (after ((after (after (after (after (after (world_at git_fetch_fails_once no_files) (fetch_invocation repo_tags)) (fetch_invocation repo_tags)) (describe_invocation repo_tags)) (git_invocation [''checkout'', ''tags/v1.0''] ''/zones'')) (git_invocation [''--no-pager'', ''log'', ''-n'', ''1'', ''--pretty=format:%H''] ''/zones''))\<lparr>clock := clock (after (after (after (after (after (world_at git_fetch_fails_once no_files) (fetch_invocation repo_tags)) (fetch_invocation repo_tags)) (describe_invocation repo_tags)) (git_invocation [''checkout'', ''tags/v1.0''] ''/zones'')) (git_invocation [''--no-pager'', ''log'', ''-n'', ''1'', ''--pretty=format:%H''] ''/zones'')) + 10 * Second\<rparr>) (fetch_invocation repo_tags)) (describe_invocation repo_tags)) \<and>
   \<not> all_succeed (world_at git_fetch_fails_once no_files) (after (after (after (after (after (world_at git_fetch_fails_once no_files) (fetch_invocation repo_tags)) (fetch_invocation repo_tags)) (describe_invocation repo_tags)) (git_invocation [''checkout'', ''tags/v1.0''] ''/zones'')) (git_invocation [''--no-pager'', ''log'', ''-n'', ''1'', ''--pretty=format:%H''] ''/zones'')) \<and>
   checkouts (world_at git_fetch_fails_once no_files) (after (after (after (after (after (world_at git_fetch_fails_once no_files) (fetch_invocation repo_tags)) (fetch_invocation repo_tags)) (describe_invocation repo_tags)) (git_invocation [''checkout'', ''tags/v1.0''] ''/zones'')) (git_invocation [''--no-pager'', ''log'', ''-n'', ''1'', ''--pretty=format:%H''] ''/zones'')) + checkouts ((after (after (after (after (after (world_at git_fetch_fails_once no_files) (fetch_invocation repo_tags)) (fetch_invocation repo_tags)) (describe_invocation repo_tags)) (git_invocation [''checkout'', ''tags/v1.0''] ''/zones'')) (git_invocation [''--no-pager'', ''log'', ''-n'', ''1'', ''--pretty=format:%H''] ''/zones''))\<lparr>clock := clock (after (after (after (after (after (world_at git_fetch_fails_once no_files) (fetch_invocation repo_tags)) (fetch_invocation repo_tags)) (describe_invocation repo_tags)) (git_invocation [''checkout'', ''tags/v1.0''] ''/zones'')) (git_invocation [''--no-pager'', ''log'', ''-n'', ''1'', ''--pretty=format:%H''] ''/zones'')) + 10 * Second\<rparr>) (after (after ((after (after (after (after (after (world_at git_fetch_fails_once no_files) (fetch_invocation repo_tags)) (fetch_invocation repo_tags)) (describe_invocation repo_tags)) (git_invocation [''checkout'', ''tags/v1.0''] ''/zones'')) (git_invocation [''--no-pager'', ''log'', ''-n'', ''1'', ''--pretty=format:%H''] ''/zones''))\<lparr>clock := clock (after (after (after (after (after (world_at git_fetch_fails_once no_files) (fetch_invocation repo_tags)) (fetch_invocation repo_tags)) (describe_invocation repo_tags)) (git_invocation [''checkout'', ''tags/v1.0''] ''/zones'')) (git_invocation [''--no-pager'', ''log'', ''-n'', ''1'', ''--pretty=format:%H''] ''/zones'')) + 10 * Second\<rparr>) (fetch_invocation repo_tags)) (describe_invocation repo_tags)) = 1"
proof -
  let ?Wa = "world_at git_ok no_files"
  let ?Ra = "repo_tags\<lparr>pulled := True, latestTag := ''v1.0''\<rparr>"
  let ?Va1 = "after (after (world_at git_ok no_files) (fetch_invocation repo_tags)) (describe_invocation repo_tags)"
  let ?R1 = "repo_tags\<lparr>pulled := True, lastPull := 63900000000 * Second + 1000, lastCommit := ''4f2a'', latestTag := ''v1.0''\<rparr>"
  let ?V1 = "after (after (after (after (after (after (world_at git_ok no_files) (git_invocation [''clone'', ''host/org/zones'', ''/zones''] [])) (git_invocation [''--no-pager'', ''log'', ''-n'', ''1'', ''--pretty=format:%H''] ''/zones'')) (fetch_invocation repo_tags)) (describe_invocation repo_tags)) (git_invocation [''checkout'', ''tags/v1.0''] ''/zones'')) (git_invocation [''--no-pager'', ''log'', ''-n'', ''1'', ''--pretty=format:%H''] ''/zones'')"
  let ?V1l = "?V1\<lparr>clock := clock ?V1 + 10 * Second\<rparr>"
  let ?V2 = "after (after ?V1l (fetch_invocation repo_tags)) (describe_invocation repo_tags)"
  let ?Wf = "world_at git_fetch_fails_once no_files"
  let ?Rf = "repo_tags\<lparr>pulled := True\<rparr>"
  let ?Rf1 = "repo_tags\<lparr>pulled := True, lastCommit := ''4f2a'', latestTag := ''v1.0''\<rparr>"
  let ?Vf1 = "after (after (after (after (after (world_at git_fetch_fails_once no_files) (fetch_invocation repo_tags)) (fetch_invocation repo_tags)) (describe_invocation repo_tags)) (git_invocation [''checkout'', ''tags/v1.0''] ''/zones'')) (git_invocation [''--no-pager'', ''log'', ''-n'', ''1'', ''--pretty=format:%H''] ''/zones'')"
  let ?Vf1l = "?Vf1\<lparr>clock := clock ?Vf1 + 10 * Second\<rparr>"
  let ?Vf2 = "after (after ?Vf1l (fetch_invocation repo_tags)) (describe_invocation repo_tags)"
  have f: "fetchLatestTag ?Ra ?Wa = ((''v1.0'', None), ?Va1)"
    by (simp add: example_defs)
  have lt: "''v1.0'' = latestTag ?Ra" and ne: "''v1.0'' \<noteq> []" by simp_all
  from tag_mode_converges [THEN conjunct1, rule_format,
      where r = ?Ra and w = ?Wa and tag = "''v1.0''" and ?w1.0 = ?Va1] f ne lt
  have a: "checkoutLatestTag ?Ra ?Wa = (None, ?Ra, ?Va1)" "checkouts ?Wa ?Va1 = 0" by blast+
  have t: "Branch repo_tags = latestTag_const" "Branch ?Rf = latestTag_const"
    by (simp_all add: latestTag_const_def)
  have nd: "\<not> Since ?Wa (lastPull repo_tags) < 5 * Second"
      "\<not> Since ?Wf (lastPull ?Rf) < 5 * Second"
    by (simp_all add: Since_less_iff) (simp_all add: Second_def)
  have d: "5 * Second \<le> 10 * Second" by (simp add: Second_def)
  have P1: "Pull repo_tags ?Wa = (None, ?R1, ?V1)"
    by (simp add: example_defs) (simp add: Second_def)
  have P2: "Pull ?R1 ?V1l = (None, ?R1, ?V2)"
    by (simp add: example_defs) (simp add: Second_def)
  have h: "describe_prints ''v1.0'' ?Wa ?V1" "describe_prints ''v1.0'' ?V1l ?V2"
      "all_succeed ?Wa ?V1" "all_succeed ?V1l ?V2"
    by (simp_all add: example_defs)
  from tag_mode_converges [THEN conjunct2, THEN conjunct1, rule_format,
      where r = repo_tags and T = "''v1.0''" and v = ?Wa and ?e1.0 = None and ?r1.0 = ?R1
        and ?v1.0 = ?V1 and d = "10 * Second" and ?e2.0 = None and ?r2.0 = ?R1 and ?v2.0 = ?V2]
    t(1) ne nd(1) P1 d P2 h
  have b: "checkouts ?Wa ?V1 = 1" "checkouts ?V1l ?V2 = 0" by simp_all
  have Q1: "Pull ?Rf ?Wf = (None, ?Rf1, ?Vf1)"
    by (simp add: example_defs) (simp add: Second_def)
  have Q2: "Pull ?Rf1 ?Vf1l = (None, ?Rf1, ?Vf2)"
    by (simp add: example_defs) (simp add: Second_def)
  have g: "describe_prints ''v1.0'' ?Wf ?Vf1" "describe_prints ''v1.0'' ?Vf1l ?Vf2"
      "checkouts_succeed ?Wf ?Vf1" "checkouts_succeed ?Vf1l ?Vf2" "\<not> all_succeed ?Wf ?Vf1"
    by (simp_all add: example_defs)
  from tag_mode_converges [THEN conjunct2, THEN conjunct2, rule_format,
      where r = ?Rf and T = "''v1.0''" and v = ?Wf and ?r1.0 = ?Rf1
        and ?v1.0 = ?Vf1 and d = "10 * Second" and ?r2.0 = ?Rf1 and ?v2.0 = ?Vf2]
    t(2) ne nd(2) Q1 d Q2 g(1-4)
  have c: "checkouts ?Wf ?Vf1 + checkouts ?Vf1l ?Vf2 = 1" by simp
  from f lt a t(1) nd P1 P2 h b Q1 Q2 g c show ?thesis by simp
qed

text \<open>
  The claim as written, that two such calls both succeed and issue exactly one checkout in
  total, fails in three ways.  When the first call starts with the latest tag already
  checked out, as every call after the first of a process does, both calls succeed and
  neither issues a checkout.  When \<open>git\<close> cannot be started, the call fails after its three
  attempts.  When the first \<open>git checkout\<close> fails and the retry succeeds, both calls succeed
  and the first has issued two checkouts.
\<close>

theorem tag_mode_other_checkout_counts:
  "\<not> Since (world_at git_ok no_files) (lastPull (repo_tags\<lparr>pulled := True, latestTag := ''v1.0''\<rparr>)) < 5 * Second \<and>
   Pull (repo_tags\<lparr>pulled := True, latestTag := ''v1.0''\<rparr>) (world_at git_ok no_files) = (None, repo_tags\<lparr>pulled := True, latestTag := ''v1.0''\<rparr>, after (after (world_at git_ok no_files) (fetch_invocation repo_tags)) (describe_invocation repo_tags)) \<and>
   Pull (repo_tags\<lparr>pulled := True, latestTag := ''v1.0''\<rparr>) ((after (after (world_at git_ok no_files) (fetch_invocation repo_tags)) (describe_invocation repo_tags))\<lparr>clock := clock (after (after (world_at git_ok no_files) (fetch_invocation repo_tags)) (describe_invocation repo_tags)) + 10 * Second\<rparr>) = (None, repo_tags\<lparr>pulled := True, latestTag := ''v1.0''\<rparr>, after (after ((after (after (world_at git_ok no_files) (fetch_invocation repo_tags)) (describe_invocation repo_tags))\<lparr>clock := clock (after (after (world_at git_ok no_files) (fetch_invocation repo_tags)) (describe_invocation repo_tags)) + 10 * Second\<rparr>) (fetch_invocation repo_tags)) (describe_invocation repo_tags)) \<and>
   describe_prints ''v1.0'' (world_at git_ok no_files) (after (after (world_at git_ok no_files) (fetch_invocation repo_tags)) (describe_invocation repo_tags)) \<and>
   describe_prints ''v1.0'' ((after (after (world_at git_ok no_files) (fetch_invocation repo_tags)) (describe_invocation repo_tags))\<lparr>clock := clock (after (after (world_at git_ok no_files) (fetch_invocation repo_tags)) (describe_invocation repo_tags)) + 10 * Second\<rparr>) (after (after ((after (after (world_at git_ok no_files) (fetch_invocation repo_tags)) (describe_invocation repo_tags))\<lparr>clock := clock (after (after (world_at git_ok no_files) (fetch_invocation repo_tags)) (describe_invocation repo_tags)) + 10 * Second\<rparr>) (fetch_invocation repo_tags)) (describe_invocation repo_tags)) \<and>
   all_succeed (world_at git_ok no_files) (after (after (world_at git_ok no_files) (fetch_invocation repo_tags)) (describe_invocation repo_tags)) \<and>
   all_succeed ((after (after (world_at git_ok no_files) (fetch_invocation repo_tags)) (describe_invocation repo_tags))\<lparr>clock := clock (after (after (world_at git_ok no_files) (fetch_invocation repo_tags)) (describe_invocation repo_tags)) + 10 * Second\<rparr>) (after (after ((after (after (world_at git_ok no_files) (fetch_invocation repo_tags)) (describe_invocation repo_tags))\<lparr>clock := clock (after (after (world_at git_ok no_files) (fetch_invocation repo_tags)) (describe_invocation repo_tags)) + 10 * Second\<rparr>) (fetch_invocation repo_tags)) (describe_invocation repo_tags)) \<and>
   checkouts (world_at git_ok no_files) (after (after (world_at git_ok no_files) (fetch_invocation repo_tags)) (describe_invocation repo_tags)) + checkouts ((after (after (world_at git_ok no_files) (fetch_invocation repo_tags)) (describe_invocation repo_tags))\<lparr>clock := clock (after (after (world_at git_ok no_files) (fetch_invocation repo_tags)) (describe_invocation repo_tags)) + 10 * Second\<rparr>) (after (after ((after (after (world_at git_ok no_files) (fetch_invocation repo_tags)) (describe_invocation repo_tags))\<lparr>clock := clock (after (after (world_at git_ok no_files) (fetch_invocation repo_tags)) (describe_invocation repo_tags)) + 10 * Second\<rparr>) (fetch_invocation repo_tags)) (describe_invocation repo_tags)) = 0 \<and>
   fst (Pull (repo_tags\<lparr>pulled := True\<rparr>) (world_at git_missing no_files)) = Some ExecStartError \<and>
   Pull (repo_tags\<lparr>pulled := True\<rparr>) (world_at git_checkout_fails_once no_files) = (None, repo_tags\<lparr>pulled := True, lastCommit := ''4f2a'', latestTag := ''v1.0''\<rparr>, after (after (after (after (after (after (after (world_at git_checkout_fails_once no_files) (fetch_invocation repo_tags)) (describe_invocation repo_tags)) (git_invocation [''checkout'', ''tags/v1.0''] ''/zones'')) (fetch_invocation repo_tags)) (describe_invocation repo_tags)) (git_invocation [''checkout'', ''tags/v1.0''] ''/zones'')) (git_invocation [''--no-pager'', ''log'', ''-n'', ''1'', ''--pretty=format:%H''] ''/zones'')) \<and>
   Pull (repo_tags\<lparr>pulled := True, lastCommit := ''4f2a'', latestTag := ''v1.0''\<rparr>) ((after (after (after (after (after (after (after (world_at git_checkout_fails_once no_files) (fetch_invocation repo_tags)) (describe_invocation repo_tags)) (git_invocation [''checkout'', ''tags/v1.0''] ''/zones'')) (fetch_invocation repo_tags)) (describe_invocation repo_tags)) (git_invocation [''checkout'', ''tags/v1.0''] ''/zones'')) (git_invocation [''--no-pager'', ''log'', ''-n'', ''1'', ''--pretty=format:%H''] ''/zones''))\<lparr>clock := clock (after (after (after (after (after (after (after (world_at git_checkout_fails_once no_files) (fetch_invocation repo_tags)) (describe_invocation repo_tags)) (git_invocation [''checkout'', ''tags/v1.0''] ''/zones'')) (fetch_invocation repo_tags)) (describe_invocation repo_tags)) (git_invocation [''checkout'', ''tags/v1.0''] ''/zones'')) (git_invocation [''--no-pager'', ''log'', ''-n'', ''1'', ''--pretty=format:%H''] ''/zones'')) + 10 * Second\<rparr>) = (None, repo_tags\<lparr>pulled := True, lastCommit := ''4f2a'', latestTag := ''v1.0''\<rparr>, after (after ((after (after (after (after (after (after (after (world_at git_checkout_fails_once no_files) (fetch_invocation repo_tags)) (describe_invocation repo_tags)) (git_invocation [''checkout'', ''tags/v1.0''] ''/zones'')) (fetch_invocation repo_tags)) (describe_invocation repo_tags)) (git_invocation [''checkout'', ''tags/v1.0''] ''/zones'')) (git_invocation [''--no-pager'', ''log'', ''-n'', ''1'', ''--pretty=format:%H''] ''/zones''))\<lparr>clock := clock (after (after (after (after (after (after (after (world_at git_checkout_fails_once no_files) (fetch_invocation repo_tags)) (describe_invocation repo_tags)) (git_invocation [''checkout'', ''tags/v1.0''] ''/zones'')) (fetch_invocation repo_tags)) (describe_invocation repo_tags)) (git_invocation [''checkout'', ''tags/v1.0''] ''/zones'')) (git_invocation [''--no-pager'', ''log'', ''-n'', ''1'', ''--pretty=format:%H''] ''/zones'')) + 10 * Second\<rparr>) (fetch_invocation repo_tags)) (describe_invocation repo_tags)) \<and>
   describe_prints ''v1.0'' (world_at git_checkout_fails_once no_files) (after (after (after (after (after (after (after (world_at git_checkout_fails_once no_files) (fetch_invocation repo_tags)) (describe_invocation repo_tags)) (git_invocation [''checkout'', ''tags/v1.0''] ''/zones'')) (fetch_invocation repo_tags)) (describe_invocation repo_tags)) (git_invocation [''checkout'', ''tags/v1.0''] ''/zones'')) (git_invocation [''--no-pager'', ''log'', ''-n'', ''1'', ''--pretty=format:%H''] ''/zones'')) \<and>
   describe_prints ''v1.0'' ((after (after (after (after (after (after (after (world_at git_checkout_fails_once no_files) (fetch_invocation repo_tags)) (describe_invocation repo_tags)) (git_invocation [''checkout'', ''tags/v1.0''] ''/zones'')) (fetch_invocation repo_tags)) (describe_invocation repo_tags)) (git_invocation [''checkout'', ''tags/v1.0''] ''/zones'')) (git_invocation [''--no-pager'', ''log'', ''-n'', ''1'', ''--pretty=format:%H''] ''/zones''))\<lparr>clock := clock (after (after (after (after (after (after (after (world_at git_checkout_fails_once no_files) (fetch_invocation repo_tags)) (describe_invocation repo_tags)) (git_invocation [''checkout'', ''tags/v1.0''] ''/zones'')) (fetch_invocation repo_tags)) (describe_invocation repo_tags)) (git_invocation [''checkout'', ''tags/v1.0''] ''/zones'')) (git_invocation [''--no-pager'', ''log'', ''-n'', ''1'', ''--pretty=format:%H''] ''/zones'')) + 10 * Second\<rparr>) (after (after ((after (after (after (after (after (after (after (world_at git_checkout_fails_once no_files) (fetch_invocation repo_tags)) (describe_invocation repo_tags)) (git_invocation [''checkout'', ''tags/v1.0''] ''/zones'')) (fetch_invocation repo_tags)) (describe_invocation repo_tags)) (git_invocation [''checkout'', ''tags/v1.0''] ''/zones'')) (git_invocation [''--no-pager'', ''log'', ''-n'', ''1'', ''--pretty=format:%H''] ''/zones''))\<lparr>clock := clock (after (after (after (after (after (after (after (world_at git_checkout_fails_once no_files) (fetch_invocation repo_tags)) (describe_invocation repo_tags)) (git_invocation [''checkout'', ''tags/v1.0''] ''/zones'')) (fetch_invocation repo_tags)) (describe_invocation repo_tags)) (git_invocation [''checkout'', ''tags/v1.0''] ''/zones'')) (git_invocation [''--no-pager'', ''log'', ''-n'', ''1'', ''--pretty=format:%H''] ''/zones'')) + 10 * Second\<rparr>) (fetch_invocation repo_tags)) (describe_invocation repo_tags)) \<and>
   checkouts (world_at git_checkout_fails_once no_files) (after (after (after (after (after (after (after (world_at git_checkout_fails_once no_files) (fetch_invocation repo_tags)) (describe_invocation repo_tags)) (git_invocation [''checkout'', ''tags/v1.0''] ''/zones'')) (fetch_invocation repo_tags)) (describe_invocation repo_tags)) (git_invocation [''checkout'', ''tags/v1.0''] ''/zones'')) (git_invocation [''--no-pager'', ''log'', ''-n'', ''1'', ''--pretty=format:%H''] ''/zones'')) + checkouts ((after (after (after (after (after (after (after (world_at git_checkout_fails_once no_files) (fetch_invocation repo_tags)) (describe_invocation repo_tags)) (git_invocation [''checkout'', ''tags/v1.0''] ''/zones'')) (fetch_invocation repo_tags)) (describe_invocation repo_tags)) (git_invocation [''checkout'', ''tags/v1.0''] ''/zones'')) (git_invocation [''--no-pager'', ''log'', ''-n'', ''1'', ''--pretty=format:%H''] ''/zones''))\<lparr>clock := clock (after (after (after (after (after (after (after (world_at git_checkout_fails_once no_files) (fetch_invocation repo_tags)) (describe_invocation repo_tags)) (git_invocation [''checkout'', ''tags/v1.0''] ''/zones'')) (fetch_invocation repo_tags)) (describe_invocation repo_tags)) (git_invocation [''checkout'', ''tags/v1.0''] ''/zones'')) (git_invocation [''--no-pager'', ''log'', ''-n'', ''1'', ''--pretty=format:%H''] ''/zones'')) + 10 * Second\<rparr>) (after (after ((after (after (after (after (after (after (after (world_at git_checkout_fails_once no_files) (fetch_invocation repo_tags)) (describe_invocation repo_tags)) (git_invocation [''checkout'', ''tags/v1.0''] ''/zones'')) (fetch_invocation repo_tags)) (describe_invocation repo_tags)) (git_invocation [''checkout'', ''tags/v1.0''] ''/zones'')) (git_invocation [''--no-pager'', ''log'', ''-n'', ''1'', ''--pretty=format:%H''] ''/zones''))\<lparr>clock := clock (after (after (after (after (after (after (after (world_at git_checkout_fails_once no_files) (fetch_invocation repo_tags)) (describe_invocation repo_tags)) (git_invocation [''checkout'', ''tags/v1.0''] ''/zones'')) (fetch_invocation repo_tags)) (describe_invocation repo_tags)) (git_invocation [''checkout'', ''tags/v1.0''] ''/zones'')) (git_invocation [''--no-pager'', ''log'', ''-n'', ''1'', ''--pretty=format:%H''] ''/zones'')) + 10 * Second\<rparr>) (fetch_invocation repo_tags)) (describe_invocation repo_tags)) = 2"
  by (simp add: example_defs) (simp add: Second_def)

end
